theory Spec2Isabelle
  imports Complex_Main "HOL-Library.Monad_Syntax" "HOL-Library.Product_Lexorder"
begin

section \<open>IdleGameEngine: the transactional runtime and its simulation driver\<close>

text \<open>
  A shallow embedding of \<^verbatim>\<open>src/idleengine\<close>. Conventions of the embedding:
  \<^item> Python \<^verbatim>\<open>float\<close> is \<^typ>\<open>real\<close> (no rounding, no NaN, no infinities); Python
    \<^verbatim>\<open>int\<close> is \<^typ>\<open>int\<close>.
  \<^item> A Python exception (\<^verbatim>\<open>KeyError\<close> of a subscript, \<^verbatim>\<open>ValueError\<close> of
    \<^verbatim>\<open>compare\<close>, \<^verbatim>\<open>ZeroDivisionError\<close>) is the result \<open>None\<close> of an
    \<open>option\<close>-valued function; a method that mutates \<^verbatim>\<open>self.state\<close> takes the state
    and returns the new one.
  \<^item> A \<^verbatim>\<open>dict\<close> that the code iterates over is an association list in insertion
    order (keys distinct, as in every Python dict); a dict that is only looked up and
    stored into is a map.
  \<^item> Caller-supplied callables (custom requirements, dynamic values, reward formulas,
    callbacks, subsystems) are total functions of the state.
  \<^item> Fields that only carry display text (\<^verbatim>\<open>display_name\<close>, \<^verbatim>\<open>description\<close>,
    \<^verbatim>\<open>category\<close>, \<^verbatim>\<open>pacing_note\<close>, \<^verbatim>\<open>hidden_until\<close>) are never read by the
    code modelled here and are left out of the records.
\<close>

subsection \<open>Game state (\<^verbatim>\<open>currency.py\<close>, \<^verbatim>\<open>element.py\<close>, \<^verbatim>\<open>state.py\<close>)\<close>

record currency_state =
  current :: real
  total_earned :: real
  current_rate :: real

record element_state =
  count :: int
  available :: bool
  affordable :: bool
  unlocked :: bool

record game_state =
  time_elapsed :: real
  currencies :: "string \<rightharpoonup> currency_state"
  elements :: "string \<rightharpoonup> element_state"
  milestones_reached :: "(string \<times> real) list"
  prestige_counts :: "string \<rightharpoonup> int"
  run_number :: int

definition currency_value :: "game_state \<Rightarrow> string \<Rightarrow> real" where
  "currency_value s i = (case currencies s i of Some cs \<Rightarrow> current cs | None \<Rightarrow> 0)"

definition currency_rate :: "game_state \<Rightarrow> string \<Rightarrow> real" where
  "currency_rate s i = (case currencies s i of Some cs \<Rightarrow> current_rate cs | None \<Rightarrow> 0)"

definition element_count :: "game_state \<Rightarrow> string \<Rightarrow> int" where
  "element_count s i = (case elements s i of Some es \<Rightarrow> count es | None \<Rightarrow> 0)"

definition has_milestone :: "game_state \<Rightarrow> string \<Rightarrow> bool" where
  "has_milestone s i = (i \<in> set (map fst (milestones_reached s)))"

definition total_earned_of :: "game_state \<Rightarrow> string \<Rightarrow> real" where
  "total_earned_of s i = (case currencies s i of Some cs \<Rightarrow> total_earned cs | None \<Rightarrow> 0)"

text \<open>\<^verbatim>\<open>d[k] = v\<close> on an insertion-ordered dict: overwrite in place, or append.\<close>

fun dict_set :: "('k \<times> 'v) list \<Rightarrow> 'k \<Rightarrow> 'v \<Rightarrow> ('k \<times> 'v) list" where
  "dict_set [] k v = [(k, v)]"
| "dict_set ((k', v') # kvs) k v =
     (if k' = k then (k, v) # kvs else (k', v') # dict_set kvs k v)"

text \<open>\<^verbatim>\<open>if cb is not None: cb(self.state)\<close>, for the two kinds of callback.\<close>

definition run_callback :: "(game_state \<Rightarrow> game_state) option \<Rightarrow> game_state \<Rightarrow> game_state" where
  "run_callback cbo s = (case cbo of None \<Rightarrow> s | Some cb \<Rightarrow> cb s)"

text \<open>A \<^verbatim>\<open>for\<close> loop whose body may raise: the first \<open>None\<close> ends it.\<close>

fun mfold :: "('a \<Rightarrow> 's \<Rightarrow> 's option) \<Rightarrow> 'a list \<Rightarrow> 's \<Rightarrow> 's option" where
  "mfold f [] s = Some s"
| "mfold f (x # xs) s = (case f x s of None \<Rightarrow> None | Some s' \<Rightarrow> mfold f xs s')"

subsection \<open>Resolvable values and comparison (\<^verbatim>\<open>_types.py\<close>)\<close>

datatype dyn_float = Lit real | Dyn "game_state \<Rightarrow> real"

fun resolve_value :: "dyn_float \<Rightarrow> game_state \<Rightarrow> real" where
  "resolve_value (Lit v) s = v"
| "resolve_value (Dyn f) s = f s"

fun resolve_optional :: "dyn_float option \<Rightarrow> game_state \<Rightarrow> real option" where
  "resolve_optional None s = None"
| "resolve_optional (Some v) s = Some (resolve_value v s)"

text \<open>\<^verbatim>\<open>compare\<close> raises \<^verbatim>\<open>ValueError\<close> on an operator outside \<^verbatim>\<open>_OPS\<close>.\<close>

definition compare :: "'a::linorder \<Rightarrow> string \<Rightarrow> 'a \<Rightarrow> bool option" where
  "compare l opr r =
     (if opr = ''>='' then Some (r \<le> l)
      else if opr = ''<='' then Some (l \<le> r)
      else if opr = ''>'' then Some (r < l)
      else if opr = ''<'' then Some (l < r)
      else if opr = ''=='' then Some (l = r)
      else if opr = ''!='' then Some (l \<noteq> r)
      else None)"

subsection \<open>Requirements (\<^verbatim>\<open>requirement.py\<close>)\<close>

text \<open>
  \<^verbatim>\<open>EstimatedTimeRequirement\<close> samples a time once and memoises it in the requirement
  object; \<open>EstimatedTimeReq t\<close> is such a requirement whose memoised sample is \<open>t\<close>.
\<close>

datatype requirement =
    ResourceReq string string real
  | TotalEarnedReq string string real
  | OwnsReq string
  | CountReq string string int
  | MilestoneReq string
  | TimeReq string real
  | AllReq "requirement list"
  | AnyReq "requirement list"
  | CustomReq "game_state \<Rightarrow> bool"
  | EstimatedTimeReq real

fun evaluate :: "requirement \<Rightarrow> game_state \<Rightarrow> bool option"
  and evaluate_all :: "requirement list \<Rightarrow> game_state \<Rightarrow> bool option"
  and evaluate_any :: "requirement list \<Rightarrow> game_state \<Rightarrow> bool option" where
  "evaluate (ResourceReq c opr th) s = compare (currency_value s c) opr th"
| "evaluate (TotalEarnedReq c opr th) s = compare (total_earned_of s c) opr th"
| "evaluate (OwnsReq e) s = Some (1 \<le> element_count s e)"
| "evaluate (CountReq e opr th) s = compare (element_count s e) opr th"
| "evaluate (MilestoneReq m) s = Some (has_milestone s m)"
| "evaluate (TimeReq opr secs) s = compare (time_elapsed s) opr secs"
| "evaluate (AllReq rs) s = evaluate_all rs s"
| "evaluate (AnyReq rs) s = evaluate_any rs s"
| "evaluate (CustomReq f) s = Some (f s)"
| "evaluate (EstimatedTimeReq t) s = Some (t \<le> time_elapsed s)"
| "evaluate_all [] s = Some True"
| "evaluate_all (r # rs) s =
     (case evaluate r s of None \<Rightarrow> None
      | Some b \<Rightarrow> if b then evaluate_all rs s else Some False)"
| "evaluate_any [] s = Some False"
| "evaluate_any (r # rs) s =
     (case evaluate r s of None \<Rightarrow> None
      | Some b \<Rightarrow> if b then Some True else evaluate_any rs s)"

subsection \<open>Cost scaling (\<^verbatim>\<open>cost_scaling.py\<close>)\<close>

type_synonym cost = "(string \<times> real) list"

text \<open>
  A \<^verbatim>\<open>CostScaling\<close> wraps a function of the base cost and the owned count.
  \<^verbatim>\<open>gr ** count\<close> raises \<^verbatim>\<open>ZeroDivisionError\<close> for \<^verbatim>\<open>0.0\<close> to a negative power.
\<close>

type_synonym cost_scaling = "cost \<Rightarrow> int \<Rightarrow> cost option"

definition scale_cost :: "real \<Rightarrow> cost \<Rightarrow> cost" where
  "scale_cost mult base = map (\<lambda>(k, v). (k, v * mult)) base"

definition fixed :: cost_scaling where
  "fixed base n = Some base"

definition exponential :: "real \<Rightarrow> cost_scaling" where
  "exponential gr base n =
     (if n < 0 \<and> gr = 0 then None
      else Some (scale_cost (if 0 \<le> n then gr ^ nat n else 1 / gr ^ nat (- n)) base))"

definition linear :: "real \<Rightarrow> cost_scaling" where
  "linear pct base n = Some (scale_cost (1 + pct * of_int n) base)"

definition custom :: "(cost \<Rightarrow> int \<Rightarrow> cost) \<Rightarrow> cost_scaling" where
  "custom fn base n = Some (fn base n)"

definition compute :: "cost_scaling \<Rightarrow> cost \<Rightarrow> int \<Rightarrow> cost option" where
  "compute cs base_cost current_count = cs base_cost current_count"

subsection \<open>Effects (\<^verbatim>\<open>effect.py\<close>)\<close>

datatype effect_type =
    PRODUCTION_FLAT | PRODUCTION_ADD_PCT | PRODUCTION_MULT | GLOBAL_MULT
  | CLICK_FLAT | CLICK_MULT | COST_MULT | CAP_FLAT | CAP_MULT
  | AUTO_CLICK | GRANT | UNLOCK | CUSTOM

datatype effect_phase =
    BASE | BONUS_ADD | BONUS_MULT | GLOBAL | CLICK | COST | CAP | AUTO
  | IMMEDIATE | CUSTOM_PHASE

fun DEFAULT_PHASE :: "effect_type \<Rightarrow> effect_phase" where
  "DEFAULT_PHASE PRODUCTION_FLAT = BASE"
| "DEFAULT_PHASE PRODUCTION_ADD_PCT = BONUS_ADD"
| "DEFAULT_PHASE PRODUCTION_MULT = BONUS_MULT"
| "DEFAULT_PHASE GLOBAL_MULT = GLOBAL"
| "DEFAULT_PHASE CLICK_FLAT = CLICK"
| "DEFAULT_PHASE CLICK_MULT = CLICK"
| "DEFAULT_PHASE COST_MULT = COST"
| "DEFAULT_PHASE CAP_FLAT = CAP"
| "DEFAULT_PHASE CAP_MULT = CAP"
| "DEFAULT_PHASE AUTO_CLICK = AUTO"
| "DEFAULT_PHASE GRANT = IMMEDIATE"
| "DEFAULT_PHASE UNLOCK = IMMEDIATE"
| "DEFAULT_PHASE CUSTOM = CUSTOM_PHASE"

text \<open>
  \<^verbatim>\<open>EffectDef\<close> is a dataclass of five fields. \<^verbatim>\<open>GameDefinition.validate\<close> also reads
  two attributes with \<^verbatim>\<open>getattr(eff, name, None)\<close>: \<open>created_by\<close> and
  \<open>per_unit_value\<close> are these attributes, \<open>None\<close> where the object has none.
\<close>

record effect_def =
  etype :: effect_type
  target :: string
  evalue :: dyn_float
  condition :: "requirement option"
  phase :: effect_phase
  created_by :: "string option"
  per_unit_value :: "real option"

text \<open>The dataclass constructor with \<^verbatim>\<open>__post_init__\<close>: a missing phase is the default one.\<close>

definition EffectDef ::
  "effect_type \<Rightarrow> string \<Rightarrow> dyn_float \<Rightarrow> requirement option \<Rightarrow> effect_phase option \<Rightarrow> effect_def" where
  "EffectDef ty tgt v cond ph =
     \<lparr>etype = ty, target = tgt, evalue = v, condition = cond,
      phase = (case ph of None \<Rightarrow> DEFAULT_PHASE ty | Some p \<Rightarrow> p),
      created_by = None, per_unit_value = None\<rparr>"

definition resolve :: "effect_def \<Rightarrow> game_state \<Rightarrow> real" where
  "resolve eff s = resolve_value (evalue eff) s"

definition is_active :: "effect_def \<Rightarrow> game_state \<Rightarrow> bool option" where
  "is_active eff s = (case condition eff of None \<Rightarrow> Some True | Some r \<Rightarrow> evaluate r s)"

definition per_count ::
  "string \<Rightarrow> effect_type \<Rightarrow> string \<Rightarrow> real \<Rightarrow> requirement option \<Rightarrow> effect_def" where
  "per_count element ty tgt per_unit cond =
     EffectDef ty tgt (Dyn (\<lambda>s. of_int (element_count s element) * per_unit)) cond None"

definition static :: "effect_type \<Rightarrow> string \<Rightarrow> real \<Rightarrow> requirement option \<Rightarrow> effect_def" where
  "static ty tgt v cond = EffectDef ty tgt (Lit v) cond None"

definition synergy ::
  "string \<Rightarrow> effect_type \<Rightarrow> string \<Rightarrow> real \<Rightarrow> requirement option \<Rightarrow> effect_def" where
  "synergy source ty tgt per_unit cond =
     EffectDef ty tgt (Dyn (\<lambda>s. of_int (element_count s source) * per_unit)) cond None"

subsection \<open>The production pipeline (\<^verbatim>\<open>pipeline.py\<close>)\<close>

type_synonym resolved_effect = "effect_type \<times> real"

type_synonym custom_pipeline = "string \<Rightarrow> resolved_effect list \<Rightarrow> game_state \<Rightarrow> real"

type_synonym pipeline = "string \<rightharpoonup> custom_pipeline"

definition set_custom :: "pipeline \<Rightarrow> string \<Rightarrow> custom_pipeline \<Rightarrow> pipeline" where
  "set_custom p currency_id fn = p(currency_id \<mapsto> fn)"

text \<open>The loop of \<^verbatim>\<open>compute_rate\<close> over its four accumulators.\<close>

fun rate_loop ::
  "resolved_effect list \<Rightarrow> real \<times> real \<times> real \<times> real \<Rightarrow> real \<times> real \<times> real \<times> real" where
  "rate_loop [] acc = acc"
| "rate_loop ((ty, val) # es) (flat_sum, add_pct, mult, global_mult) =
     rate_loop es
       (if ty = PRODUCTION_FLAT then (flat_sum + val, add_pct, mult, global_mult)
        else if ty = PRODUCTION_ADD_PCT then (flat_sum, add_pct + val, mult, global_mult)
        else if ty = PRODUCTION_MULT then (flat_sum, add_pct, mult * val, global_mult)
        else if ty = GLOBAL_MULT then (flat_sum, add_pct, mult, global_mult * val)
        else (flat_sum, add_pct, mult, global_mult))"

definition compute_rate :: "pipeline \<Rightarrow> string \<Rightarrow> resolved_effect list \<Rightarrow> game_state \<Rightarrow> real" where
  "compute_rate p currency_id effects s =
     (case p currency_id of
        Some fn \<Rightarrow> fn currency_id effects s
      | None \<Rightarrow>
          (case rate_loop effects (0, 0, 1, 1) of
             (flat_sum, add_pct, mult, global_mult) \<Rightarrow>
               flat_sum * (1 + add_pct) * mult * global_mult))"

fun click_loop :: "resolved_effect list \<Rightarrow> real \<times> real \<Rightarrow> real \<times> real" where
  "click_loop [] acc = acc"
| "click_loop ((ty, val) # es) (flat_sum, click_mult) =
     click_loop es
       (if ty = CLICK_FLAT then (flat_sum + val, click_mult)
        else if ty = CLICK_MULT then (flat_sum, click_mult * val)
        else (flat_sum, click_mult))"

definition compute_click_value ::
  "pipeline \<Rightarrow> string \<Rightarrow> real \<Rightarrow> resolved_effect list \<Rightarrow> game_state \<Rightarrow> real" where
  "compute_click_value p currency_id base_value effects s =
     (case click_loop effects (base_value, 1) of
        (flat_sum, click_mult) \<Rightarrow> flat_sum * click_mult)"

subsection \<open>Definitions (\<^verbatim>\<open>currency.py\<close>, \<^verbatim>\<open>element.py\<close>, \<^verbatim>\<open>milestone.py\<close>, \<^verbatim>\<open>prestige.py\<close>, \<^verbatim>\<open>definition.py\<close>)\<close>

record currency_def =
  c_id :: string
  initial_value :: real
  cap :: "dyn_float option"
  persistent :: bool

record element_def =
  e_id :: string
  base_cost :: cost
  cost_scaling :: cost_scaling
  max_count :: "int option"
  effects :: "effect_def list"
  requirements :: "requirement list"
  purchase_requirements :: "requirement list"
  on_purchase :: "(game_state \<Rightarrow> game_state) option"
  tags :: "string set"

record milestone_def =
  m_id :: string
  trigger :: "requirement option"
  on_trigger :: "(game_state \<Rightarrow> game_state) option"

text \<open>\<^verbatim>\<open>currencies_reset\<close> and \<^verbatim>\<open>elements_reset\<close> have the type \<^verbatim>\<open>list[str] | str\<close>.\<close>

datatype reset_spec = ResetList "string list" | ResetStr string

record prestige_layer_def =
  p_id :: string
  prestige_currency :: string
  reward_formula :: "(game_state \<Rightarrow> real) option"
  currencies_reset :: reset_spec
  elements_reset :: reset_spec
  p_requirements :: "requirement list"
  minimum_reward :: real

record click_target =
  ct_currency :: string
  base_value :: real

record game_definition =
  d_currencies :: "currency_def list"
  d_elements :: "element_def list"
  d_milestones :: "milestone_def list"
  prestige_layers :: "prestige_layer_def list"
  click_targets :: "click_target list"

text \<open>
  The lookup dicts of \<^verbatim>\<open>__post_init__\<close> are dict comprehensions over the lists: of two
  entries with one id, the later one is kept.
\<close>

definition get_currency :: "game_definition \<Rightarrow> string \<Rightarrow> currency_def option" where
  "get_currency d i = find (\<lambda>c. c_id c = i) (rev (d_currencies d))"

definition get_element :: "game_definition \<Rightarrow> string \<Rightarrow> element_def option" where
  "get_element d i = find (\<lambda>e. e_id e = i) (rev (d_elements d))"

definition get_milestone :: "game_definition \<Rightarrow> string \<Rightarrow> milestone_def option" where
  "get_milestone d i = find (\<lambda>m. m_id m = i) (rev (d_milestones d))"

definition get_prestige_layer :: "game_definition \<Rightarrow> string \<Rightarrow> prestige_layer_def option" where
  "get_prestige_layer d i = find (\<lambda>p. p_id p = i) (rev (prestige_layers d))"

definition get_click_target :: "game_definition \<Rightarrow> string \<Rightarrow> click_target option" where
  "get_click_target d c = find (\<lambda>ct. ct_currency ct = c) (rev (click_targets d))"

text \<open>
  \<^verbatim>\<open>validate\<close> returns a list of messages and emits warnings. A message is modelled by
  its kind and the ids formatted into it.
\<close>

datatype validation_error =
    DuplicateCurrency string
  | DuplicateElement string
  | DuplicateMilestone string
  | UnknownCostCurrency string string
  | EffectUnknownCurrency string string
  | EffectUnknownElement string string
  | ClickTargetUnknownCurrency string
  | PrestigeUnknownCurrency string string
  | PrestigeResetsUnknownCurrency string string
  | PrestigeResetsUnknownElement string string

datatype validation_warning =
    PerCountLinear string effect_type string "real option"

fun duplicate_ids :: "string list \<Rightarrow> string list \<Rightarrow> string list" where
  "duplicate_ids [] seen = []"
| "duplicate_ids (i # ids) seen =
     (if i \<in> set seen then i # duplicate_ids ids (i # seen) else duplicate_ids ids (i # seen))"

definition effect_target_errors :: "string set \<Rightarrow> string set \<Rightarrow> element_def \<Rightarrow> validation_error list" where
  "effect_target_errors currency_ids element_ids e =
     concat (map (\<lambda>eff.
       if etype eff \<in> {PRODUCTION_FLAT, PRODUCTION_ADD_PCT, PRODUCTION_MULT, CLICK_FLAT,
                        CLICK_MULT, CAP_FLAT, CAP_MULT, AUTO_CLICK, GRANT}
       then (if target eff \<notin> currency_ids then [EffectUnknownCurrency (e_id e) (target eff)] else [])
       else if etype eff \<in> {COST_MULT, UNLOCK}
       then (if target eff \<notin> element_ids then [EffectUnknownElement (e_id e) (target eff)] else [])
       else []) (effects e))"

definition prestige_errors :: "string set \<Rightarrow> string set \<Rightarrow> prestige_layer_def \<Rightarrow> validation_error list" where
  "prestige_errors currency_ids element_ids p =
     (if prestige_currency p \<notin> currency_ids
      then [PrestigeUnknownCurrency (p_id p) (prestige_currency p)] else [])
     @ (case currencies_reset p of
          ResetList cids \<Rightarrow>
            map (PrestigeResetsUnknownCurrency (p_id p)) (filter (\<lambda>cid. cid \<notin> currency_ids) cids)
        | ResetStr _ \<Rightarrow> [])
     @ (case elements_reset p of
          ResetList eids \<Rightarrow>
            map (PrestigeResetsUnknownElement (p_id p)) (filter (\<lambda>eid. eid \<notin> element_ids) eids)
        | ResetStr _ \<Rightarrow> [])"

definition validate_errors :: "game_definition \<Rightarrow> validation_error list" where
  "validate_errors d =
     (let currency_ids = set (map c_id (d_currencies d));
          element_ids = set (map e_id (d_elements d))
      in map DuplicateCurrency (duplicate_ids (map c_id (d_currencies d)) [])
       @ map DuplicateElement (duplicate_ids (map e_id (d_elements d)) [])
       @ map DuplicateMilestone (duplicate_ids (map m_id (d_milestones d)) [])
       @ concat (map (\<lambda>e. map (UnknownCostCurrency (e_id e))
            (filter (\<lambda>cur_id. cur_id \<notin> currency_ids) (map fst (base_cost e)))) (d_elements d))
       @ concat (map (effect_target_errors currency_ids element_ids) (d_elements d))
       @ map ClickTargetUnknownCurrency
           (filter (\<lambda>c. c \<notin> currency_ids) (map ct_currency (click_targets d)))
       @ concat (map (prestige_errors currency_ids element_ids) (prestige_layers d)))"

text \<open>The last loop of \<^verbatim>\<open>validate\<close>: one \<^verbatim>\<open>warnings.warn\<close> per effect it flags.\<close>

definition validate_warnings :: "game_definition \<Rightarrow> validation_warning list" where
  "validate_warnings d =
     concat (map (\<lambda>e. concat (map (\<lambda>eff.
       if created_by eff = Some ''per_count'' \<and> etype eff \<in> {PRODUCTION_MULT, GLOBAL_MULT}
       then [PerCountLinear (e_id e) (etype eff) (target eff) (per_unit_value eff)]
       else []) (effects e))) (d_elements d))"

text \<open>\<^verbatim>\<open>validate\<close>: the returned errors, and the warnings emitted on the way.\<close>

definition validate :: "game_definition \<Rightarrow> validation_error list \<times> validation_warning list" where
  "validate d = (validate_errors d, validate_warnings d)"

subsection \<open>Construction of the state (\<^verbatim>\<open>GameState.__init__\<close>)\<close>

definition GameState :: "game_definition \<Rightarrow> game_state" where
  "GameState d =
     \<lparr>time_elapsed = 0,
      currencies = fold (\<lambda>cdef m. m(c_id cdef \<mapsto>
          \<lparr>current = initial_value cdef, total_earned = initial_value cdef, current_rate = 0\<rparr>))
        (d_currencies d) Map.empty,
      elements = fold (\<lambda>edef m. m(e_id edef \<mapsto>
          \<lparr>count = 0, available = False, affordable = False, unlocked = False\<rparr>))
        (d_elements d) Map.empty,
      milestones_reached = [],
      prestige_counts = fold (\<lambda>player m. m(p_id player \<mapsto> 0)) (prestige_layers d) Map.empty,
      run_number = 1\<rparr>"

subsection \<open>The runtime and its private helpers (\<^verbatim>\<open>runtime.py\<close>)\<close>

text \<open>
  \<^verbatim>\<open>self.definition\<close> is never reassigned and is passed as the argument \<open>d\<close>. The
  dict \<^verbatim>\<open>_custom_effect_handlers\<close> is written by \<^verbatim>\<open>register_effect_type\<close> and never
  read, and is left out.
\<close>

type_synonym subsystem = "game_state \<Rightarrow> real \<Rightarrow> game_state"

record runtime =
  state :: game_state
  pipeline :: pipeline
  dirty :: bool
  subsystems :: "subsystem list"

text \<open>The loop \<^verbatim>\<open>for edef in self.definition.elements\<close> over the owned elements' effects.\<close>

definition over_owned_effects ::
  "game_definition \<Rightarrow> game_state \<Rightarrow> (effect_def \<Rightarrow> 'acc \<Rightarrow> 'acc option) \<Rightarrow> 'acc \<Rightarrow> 'acc option" where
  "over_owned_effects d s body acc =
     mfold (\<lambda>edef acc.
        case elements s (e_id edef) of
          None \<Rightarrow> None
        | Some es \<Rightarrow> if count es \<le> 0 then Some acc else mfold body (effects edef) acc)
       (d_elements d) acc"

definition cost_effect_step :: "game_state \<Rightarrow> string \<Rightarrow> effect_def \<Rightarrow> real \<Rightarrow> real option" where
  "cost_effect_step s element_id eff total_mult =
     (if etype eff = COST_MULT \<and> target eff = element_id then
        (case is_active eff s of
           None \<Rightarrow> None
         | Some a \<Rightarrow> Some (if a then total_mult * resolve eff s else total_mult))
      else Some total_mult)"

definition apply_cost_effects :: "game_definition \<Rightarrow> game_state \<Rightarrow> string \<Rightarrow> cost \<Rightarrow> cost option" where
  "apply_cost_effects d s element_id cost =
     (case over_owned_effects d s (cost_effect_step s element_id) 1 of
        None \<Rightarrow> None
      | Some total_mult \<Rightarrow> Some (if total_mult \<noteq> 1 then scale_cost total_mult cost else cost))"

text \<open>
  The two lines \<^verbatim>\<open>cost = edef.cost_scaling.compute(edef.base_cost, es.count)\<close> and
  \<^verbatim>\<open>cost = self._apply_cost_effects(..., cost)\<close>, which four methods share.
\<close>

definition current_cost ::
  "game_definition \<Rightarrow> game_state \<Rightarrow> element_def \<Rightarrow> string \<Rightarrow> int \<Rightarrow> cost option" where
  "current_cost d s edef element_id n =
     (case compute (cost_scaling edef) (base_cost edef) n of
        None \<Rightarrow> None
      | Some cost \<Rightarrow> apply_cost_effects d s element_id cost)"

definition cap_effect_step ::
  "game_state \<Rightarrow> string \<Rightarrow> effect_def \<Rightarrow> real \<times> real \<Rightarrow> (real \<times> real) option" where
  "cap_effect_step s currency_id eff acc =
     (case acc of (cap_flat, cap_mult) \<Rightarrow>
        if target eff \<noteq> currency_id then Some acc
        else (case is_active eff s of
                None \<Rightarrow> None
              | Some a \<Rightarrow>
                  if \<not> a then Some acc
                  else if etype eff = CAP_FLAT then Some (cap_flat + resolve eff s, cap_mult)
                  else if etype eff = CAP_MULT then Some (cap_flat, cap_mult * resolve eff s)
                  else Some acc))"

text \<open>The outer \<open>option\<close> is the exception, the inner one Python's \<^verbatim>\<open>None\<close> (no cap).\<close>

definition resolve_cap :: "game_definition \<Rightarrow> game_state \<Rightarrow> string \<Rightarrow> real option option" where
  "resolve_cap d s currency_id =
     (case get_currency d currency_id of
        None \<Rightarrow> Some None
      | Some cdef \<Rightarrow>
          (case resolve_optional (cap cdef) s of
             None \<Rightarrow> Some None
           | Some base_cap \<Rightarrow>
               (case over_owned_effects d s (cap_effect_step s currency_id) (0, 1) of
                  None \<Rightarrow> None
                | Some (cap_flat, cap_mult) \<Rightarrow> Some (Some ((base_cap + cap_flat) * cap_mult)))))"

text \<open>\<^verbatim>\<open>if cap is not None and cs.current > cap: cs.current = cap\<close>, on currency \<open>i\<close>.\<close>

definition clamp_to_cap :: "game_definition \<Rightarrow> string \<Rightarrow> game_state \<Rightarrow> game_state option" where
  "clamp_to_cap d i s =
     (case resolve_cap d s i of
        None \<Rightarrow> None
      | Some None \<Rightarrow> Some s
      | Some (Some the_cap) \<Rightarrow>
          (case currencies s i of
             None \<Rightarrow> Some s
           | Some cs \<Rightarrow>
               Some (if current cs > the_cap
                     then s\<lparr>currencies := (currencies s)(i \<mapsto> cs\<lparr>current := the_cap\<rparr>)\<rparr> else s)))"

definition can_pay :: "game_state \<Rightarrow> cost \<Rightarrow> bool" where
  "can_pay s cost = list_all (\<lambda>(cid, amt). amt \<le> currency_value s cid) cost"

definition update_element_status :: "game_definition \<Rightarrow> element_def \<Rightarrow> game_state \<Rightarrow> game_state option" where
  "update_element_status d edef s =
     (case elements s (e_id edef) of
        None \<Rightarrow> None
      | Some es \<Rightarrow>
          (case (if \<not> unlocked es then evaluate_all (requirements edef) s else Some True) of
             None \<Rightarrow> None
           | Some avail \<Rightarrow>
               (let es1 = es\<lparr>available := avail\<rparr>;
                    s1 = s\<lparr>elements := (elements s)(e_id edef \<mapsto> es1)\<rparr>
                in if avail \<and> (case max_count edef of None \<Rightarrow> True | Some m \<Rightarrow> count es < m)
                   then (case current_cost d s1 edef (e_id edef) (count es) of
                           None \<Rightarrow> None
                         | Some cost \<Rightarrow>
                             Some (s1\<lparr>elements := (elements s1)
                               (e_id edef \<mapsto> es1\<lparr>affordable := can_pay s1 cost\<rparr>)\<rparr>))
                   else Some (s1\<lparr>elements := (elements s1)
                               (e_id edef \<mapsto> es1\<lparr>affordable := False\<rparr>)\<rparr>))))"

definition update_element_statuses :: "game_definition \<Rightarrow> game_state \<Rightarrow> game_state option" where
  "update_element_statuses d s = mfold (update_element_status d) (d_elements d) s"

definition check_milestone :: "milestone_def \<Rightarrow> game_state \<Rightarrow> game_state option" where
  "check_milestone mdef s =
     (if m_id mdef \<in> set (map fst (milestones_reached s)) then Some s
      else (case trigger mdef of
              None \<Rightarrow> Some s
            | Some tr \<Rightarrow>
                (case evaluate tr s of
                   None \<Rightarrow> None
                 | Some fired \<Rightarrow>
                     if fired then
                       (let s1 = s\<lparr>milestones_reached :=
                                  dict_set (milestones_reached s) (m_id mdef) (time_elapsed s)\<rparr>
                        in Some (run_callback (on_trigger mdef) s1))
                     else Some s)))"

definition check_milestones :: "game_definition \<Rightarrow> game_state \<Rightarrow> game_state option" where
  "check_milestones d s = mfold check_milestone (d_milestones d) s"

definition apply_immediate_effect :: "effect_def \<Rightarrow> game_state \<Rightarrow> game_state" where
  "apply_immediate_effect eff s =
     (if etype eff = GRANT then
        (case currencies s (target eff) of
           None \<Rightarrow> s
         | Some cs \<Rightarrow>
             (let amount = resolve eff s
              in s\<lparr>currencies := (currencies s)(target eff \<mapsto>
                   cs\<lparr>current := current cs + amount,
                      total_earned := (if amount > 0 then total_earned cs + amount
                                       else total_earned cs)\<rparr>)\<rparr>))
      else if etype eff = UNLOCK then
        (case elements s (target eff) of
           None \<Rightarrow> s
         | Some es \<Rightarrow>
             s\<lparr>elements := (elements s)(target eff \<mapsto> es\<lparr>unlocked := True, available := True\<rparr>)\<rparr>)
      else s)"

definition auto_click_step ::
  "game_definition \<Rightarrow> real \<Rightarrow> effect_def \<Rightarrow> game_state \<Rightarrow> game_state option" where
  "auto_click_step d delta eff s =
     (if etype eff \<noteq> AUTO_CLICK then Some s
      else (case is_active eff s of
              None \<Rightarrow> None
            | Some a \<Rightarrow>
                if \<not> a then Some s
                else (let clicks_per_sec = resolve eff s;
                          total_clicks = clicks_per_sec * delta
                      in case get_click_target d (target eff) of
                           None \<Rightarrow> Some s
                         | Some ct \<Rightarrow>
                             (let v = base_value ct * total_clicks
                              in case currencies s (target eff) of
                                   None \<Rightarrow> Some s
                                 | Some cs \<Rightarrow>
                                     Some (s\<lparr>currencies := (currencies s)(target eff \<mapsto>
                                       cs\<lparr>current := current cs + v,
                                          total_earned := total_earned cs + v\<rparr>)\<rparr>)))))"

text \<open>
  Unlike the other loops over owned elements, this one mutates the state it reads:
  each element's count is read from the state as the earlier auto-clicks left it.
\<close>

definition process_auto_clicks :: "game_definition \<Rightarrow> game_state \<Rightarrow> real \<Rightarrow> game_state option" where
  "process_auto_clicks d s delta =
     mfold (\<lambda>edef s.
        case elements s (e_id edef) of
          None \<Rightarrow> None
        | Some es \<Rightarrow>
            if count es \<le> 0 then Some s else mfold (auto_click_step d delta) (effects edef) s)
       (d_elements d) s"

type_synonym gathered = "resolved_effect list \<times> (string \<rightharpoonup> resolved_effect list)"

definition gather_step :: "game_state \<Rightarrow> effect_def \<Rightarrow> gathered \<Rightarrow> gathered option" where
  "gather_step s eff acc =
     (case acc of (global_effects, per_currency) \<Rightarrow>
        if phase eff \<in> {IMMEDIATE, COST} then Some acc
        else (case is_active eff s of
                None \<Rightarrow> None
              | Some a \<Rightarrow>
                  if \<not> a then Some acc
                  else (let pair = (etype eff, resolve eff s)
                        in if etype eff = GLOBAL_MULT
                           then Some (global_effects @ [pair], per_currency)
                           else (case per_currency (target eff) of
                                   Some l \<Rightarrow>
                                     Some (global_effects, per_currency(target eff \<mapsto> l @ [pair]))
                                 | None \<Rightarrow> Some acc))))"

definition set_rate ::
  "pipeline \<Rightarrow> gathered \<Rightarrow> currency_def \<Rightarrow> game_state \<Rightarrow> game_state option" where
  "set_rate p g cdef s =
     (case g of (global_effects, per_currency) \<Rightarrow>
        (case per_currency (c_id cdef) of
           None \<Rightarrow> None
         | Some l \<Rightarrow>
             (let rate = compute_rate p (c_id cdef) (l @ global_effects) s
              in case currencies s (c_id cdef) of
                   None \<Rightarrow> None
                 | Some cs \<Rightarrow>
                     Some (s\<lparr>currencies := (currencies s)(c_id cdef \<mapsto> cs\<lparr>current_rate := rate\<rparr>)\<rparr>))))"

definition recompute_rates :: "game_definition \<Rightarrow> pipeline \<Rightarrow> game_state \<Rightarrow> game_state option" where
  "recompute_rates d p s =
     (case over_owned_effects d s (gather_step s)
             ([], fold (\<lambda>cdef m. m(c_id cdef \<mapsto> [])) (d_currencies d) Map.empty) of
        None \<Rightarrow> None
      | Some g \<Rightarrow> mfold (set_rate p g) (d_currencies d) s)"

subsection \<open>The public operations (\<^verbatim>\<open>runtime.py\<close>)\<close>

text \<open>\<^verbatim>\<open>GameRuntime.__init__\<close> raises \<^verbatim>\<open>ValueError\<close> when \<^verbatim>\<open>validate\<close> returns errors.\<close>

definition GameRuntime :: "game_definition \<Rightarrow> runtime option" where
  "GameRuntime d =
     (if fst (validate d) \<noteq> [] then None
      else (case update_element_statuses d (GameState d) of
              None \<Rightarrow> None
            | Some s \<Rightarrow> Some \<lparr>state = s, pipeline = Map.empty, dirty = True, subsystems = []\<rparr>))"

definition production_step :: "game_definition \<Rightarrow> real \<Rightarrow> currency_def \<Rightarrow> game_state \<Rightarrow> game_state option" where
  "production_step d delta cdef s =
     (case currencies s (c_id cdef) of
        None \<Rightarrow> None
      | Some cs \<Rightarrow>
          if current_rate cs \<noteq> 0 then
            (let earned = current_rate cs * delta;
                 cs1 = cs\<lparr>current := current cs + earned,
                          total_earned := (if earned > 0 then total_earned cs + earned
                                           else total_earned cs)\<rparr>
             in clamp_to_cap d (c_id cdef) (s\<lparr>currencies := (currencies s)(c_id cdef \<mapsto> cs1)\<rparr>))
          else Some s)"

definition tick :: "game_definition \<Rightarrow> runtime \<Rightarrow> real \<Rightarrow> runtime option" where
  "tick d rt delta =
     do {
       s0 \<leftarrow> (if dirty rt then recompute_rates d (pipeline rt) (state rt) else Some (state rt));
       s1 \<leftarrow> mfold (production_step d delta) (d_currencies d) s0;
       s2 \<leftarrow> process_auto_clicks d s1 delta;
       s3 \<leftarrow> update_element_statuses d (s2\<lparr>time_elapsed := time_elapsed s2 + delta\<rparr>);
       s4 \<leftarrow> check_milestones d s3;
       Some (rt\<lparr>state := fold (\<lambda>sub s. sub s delta) (subsystems rt) s4, dirty := False\<rparr>)
     }"

definition deduct :: "string \<times> real \<Rightarrow> game_state \<Rightarrow> game_state option" where
  "deduct ca s =
     (case ca of (cur_id, amount) \<Rightarrow>
        (case currencies s cur_id of
           None \<Rightarrow> None
         | Some cs \<Rightarrow>
             Some (s\<lparr>currencies := (currencies s)(cur_id \<mapsto> cs\<lparr>current := current cs - amount\<rparr>)\<rparr>)))"

definition apply_immediate_effects :: "element_def \<Rightarrow> game_state \<Rightarrow> game_state" where
  "apply_immediate_effects edef s =
     fold (\<lambda>eff s. if phase eff = IMMEDIATE then apply_immediate_effect eff s else s) (effects edef) s"

definition try_purchase :: "game_definition \<Rightarrow> runtime \<Rightarrow> string \<Rightarrow> (bool \<times> runtime) option" where
  "try_purchase d rt element_id =
     (case get_element d element_id of
        None \<Rightarrow> Some (False, rt)
      | Some edef \<Rightarrow>
          (case elements (state rt) element_id of
             None \<Rightarrow> None
           | Some es \<Rightarrow>
               if (case max_count edef of None \<Rightarrow> False | Some m \<Rightarrow> m \<le> count es)
               then Some (False, rt)
               else if \<not> available es \<and> \<not> unlocked es then Some (False, rt)
               else
                 do {
                   reqs_met \<leftarrow> evaluate_all (purchase_requirements edef) (state rt);
                   if \<not> reqs_met then Some (False, rt)
                   else
                     do {
                       cost \<leftarrow> current_cost d (state rt) edef element_id (count es);
                       if list_ex (\<lambda>(cur_id, amount). currency_value (state rt) cur_id < amount) cost
                       then Some (False, rt)
                       else
                         do {
                           s1 \<leftarrow> mfold deduct cost (state rt);
                           let s2 = s1\<lparr>elements := (elements s1)
                                      (element_id \<mapsto> es\<lparr>count := count es + 1\<rparr>)\<rparr>;
                           let s3 = apply_immediate_effects edef s2;
                           let s4 = run_callback (on_purchase edef) s3;
                           s5 \<leftarrow> update_element_statuses d s4;
                           Some (True, rt\<lparr>state := s5, dirty := True\<rparr>)
                         }
                     }
                 }))"

definition click_effect_step ::
  "game_state \<Rightarrow> string \<Rightarrow> effect_def \<Rightarrow> resolved_effect list \<Rightarrow> resolved_effect list option" where
  "click_effect_step s target_currency eff click_effects =
     (if etype eff \<in> {CLICK_FLAT, CLICK_MULT} \<and> target eff = target_currency then
        (case is_active eff s of
           None \<Rightarrow> None
         | Some a \<Rightarrow>
             Some (if a then click_effects @ [(etype eff, resolve eff s)] else click_effects))
      else Some click_effects)"

definition process_click :: "game_definition \<Rightarrow> runtime \<Rightarrow> string \<Rightarrow> (real \<times> runtime) option" where
  "process_click d rt target_currency =
     (case get_click_target d target_currency of
        None \<Rightarrow> Some (0, rt)
      | Some ct \<Rightarrow>
          do {
            click_effects \<leftarrow>
              over_owned_effects d (state rt) (click_effect_step (state rt) target_currency) [];
            let v = compute_click_value (pipeline rt) target_currency (base_value ct)
                      click_effects (state rt);
            cs \<leftarrow> currencies (state rt) target_currency;
            s2 \<leftarrow> clamp_to_cap d target_currency
                    ((state rt)\<lparr>currencies := (currencies (state rt))(target_currency \<mapsto>
                       cs\<lparr>current := current cs + v, total_earned := total_earned cs + v\<rparr>)\<rparr>);
            Some (v, rt\<lparr>state := s2\<rparr>)
          })"

text \<open>
  \<^verbatim>\<open>PrestigeResult.reason\<close> is a string; \<open>NoReason\<close> is the empty default, and
  \<open>RewardBelowMinimum r m\<close> is the text formatted from the reward and the minimum.
\<close>

datatype prestige_reason =
    NoReason | UnknownPrestigeLayer | RequirementsNotMet | NoRewardFormula
  | RewardBelowMinimum real real

record prestige_result =
  success :: bool
  reward_amount :: real
  res_currencies_reset :: "string list"
  res_elements_reset :: "string list"
  reason :: prestige_reason

definition failed_result :: "real \<Rightarrow> prestige_reason \<Rightarrow> prestige_result" where
  "failed_result r why =
     \<lparr>success = False, reward_amount = r, res_currencies_reset = [],
      res_elements_reset = [], reason = why\<rparr>"

definition resolve_reset_list :: "game_definition \<Rightarrow> reset_spec \<Rightarrow> string \<Rightarrow> string list" where
  "resolve_reset_list d spec kind =
     (case spec of
        ResetStr str \<Rightarrow>
          if str = ''all_non_persistent'' then
            (if kind = ''currency''
             then map c_id (filter (\<lambda>c. \<not> persistent c) (d_currencies d))
             else map e_id (filter (\<lambda>e. ''persistent'' \<notin> tags e) (d_elements d)))
          else []
      | ResetList ids \<Rightarrow> ids)"

definition reset_currency :: "game_definition \<Rightarrow> string \<Rightarrow> game_state \<Rightarrow> game_state" where
  "reset_currency d cid s =
     (case currencies s cid of
        None \<Rightarrow> s
      | Some cs \<Rightarrow>
          (let init = (case get_currency d cid of Some cdef \<Rightarrow> initial_value cdef | None \<Rightarrow> 0)
           in s\<lparr>currencies := (currencies s)(cid \<mapsto>
                cs\<lparr>current := init, total_earned := init, current_rate := 0\<rparr>)\<rparr>))"

definition reset_element :: "game_definition \<Rightarrow> string \<Rightarrow> game_state \<Rightarrow> game_state" where
  "reset_element d eid s =
     (case elements s eid of
        None \<Rightarrow> s
      | Some es \<Rightarrow>
          (case get_element d eid of
             None \<Rightarrow> s
           | Some edef \<Rightarrow>
               if ''persistent'' \<notin> tags edef
               then s\<lparr>elements := (elements s)(eid \<mapsto>
                      es\<lparr>count := 0, available := False, affordable := False\<rparr>)\<rparr>
               else s))"

definition grant_reward :: "string \<Rightarrow> real \<Rightarrow> game_state \<Rightarrow> game_state" where
  "grant_reward pc reward s =
     (case currencies s pc of
        None \<Rightarrow> s
      | Some pcs \<Rightarrow>
          s\<lparr>currencies := (currencies s)(pc \<mapsto>
             pcs\<lparr>current := current pcs + reward, total_earned := total_earned pcs + reward\<rparr>)\<rparr>)"

text \<open>The second half of \<^verbatim>\<open>trigger_prestige\<close>, from \<^verbatim>\<open># Resolve reset lists\<close> on.\<close>

definition apply_prestige ::
  "game_definition \<Rightarrow> runtime \<Rightarrow> string \<Rightarrow> prestige_layer_def \<Rightarrow> real
     \<Rightarrow> (prestige_result \<times> runtime) option" where
  "apply_prestige d rt layer_id layer reward =
     (let currencies_to_reset = resolve_reset_list d (currencies_reset layer) ''currency'';
          elements_to_reset = resolve_reset_list d (elements_reset layer) ''element'';
          s1 = fold (reset_currency d) currencies_to_reset (state rt);
          s2 = fold (reset_element d) elements_to_reset s1;
          s3 = grant_reward (prestige_currency layer) reward s2;
          s4 = s3\<lparr>prestige_counts := (prestige_counts s3)(layer_id \<mapsto>
                    (case prestige_counts s3 layer_id of None \<Rightarrow> 0 | Some n \<Rightarrow> n) + 1),
                  run_number := run_number s3 + 1\<rparr>
      in case update_element_statuses d s4 of
           None \<Rightarrow> None
         | Some s5 \<Rightarrow>
             Some (\<lparr>success = True, reward_amount = reward,
                    res_currencies_reset = currencies_to_reset,
                    res_elements_reset = elements_to_reset,
                    reason = NoReason\<rparr>,
                   rt\<lparr>state := s5, dirty := True\<rparr>))"

definition trigger_prestige ::
  "game_definition \<Rightarrow> runtime \<Rightarrow> string \<Rightarrow> (prestige_result \<times> runtime) option" where
  "trigger_prestige d rt layer_id =
     (case get_prestige_layer d layer_id of
        None \<Rightarrow> Some (failed_result 0 UnknownPrestigeLayer, rt)
      | Some layer \<Rightarrow>
          (case evaluate_all (p_requirements layer) (state rt) of
             None \<Rightarrow> None
           | Some reqs_met \<Rightarrow>
               if \<not> reqs_met then Some (failed_result 0 RequirementsNotMet, rt)
               else
                 (case reward_formula layer of
                    None \<Rightarrow> Some (failed_result 0 NoRewardFormula, rt)
                  | Some formula \<Rightarrow>
                      (let reward = formula (state rt)
                       in if reward < minimum_reward layer
                          then Some (failed_result reward
                                       (RewardBelowMinimum reward (minimum_reward layer)), rt)
                          else apply_prestige d rt layer_id layer reward))))"

subsection \<open>Queries (\<^verbatim>\<open>runtime.py\<close>)\<close>

text \<open>\<^verbatim>\<open>ElementStatus\<close>, without its display fields.\<close>

record element_status =
  es_id :: string
  es_count :: int
  es_available :: bool
  es_affordable :: bool
  es_current_cost :: cost
  es_max_count :: "int option"
  es_tags :: "string set"

definition available_purchase ::
  "game_definition \<Rightarrow> game_state \<Rightarrow> element_def \<Rightarrow> element_status list \<Rightarrow> element_status list option" where
  "available_purchase d s edef result =
     (case elements s (e_id edef) of
        None \<Rightarrow> None
      | Some es \<Rightarrow>
          if \<not> (available es \<or> unlocked es) then Some result
          else if (case max_count edef of None \<Rightarrow> False | Some m \<Rightarrow> m \<le> count es) then Some result
          else (case current_cost d s edef (e_id edef) (count es) of
                  None \<Rightarrow> None
                | Some cost \<Rightarrow>
                    Some (result @
                      [\<lparr>es_id = e_id edef, es_count = count es, es_available = True,
                        es_affordable = affordable es, es_current_cost = cost,
                        es_max_count = max_count edef, es_tags = tags edef\<rparr>])))"

definition get_available_purchases :: "game_definition \<Rightarrow> game_state \<Rightarrow> element_status list option" where
  "get_available_purchases d s = mfold (available_purchase d s) (d_elements d) []"

definition get_affordable_purchases :: "game_definition \<Rightarrow> game_state \<Rightarrow> element_status list option" where
  "get_affordable_purchases d s = map_option (filter es_affordable) (get_available_purchases d s)"

definition compute_current_cost :: "game_definition \<Rightarrow> game_state \<Rightarrow> string \<Rightarrow> cost option" where
  "compute_current_cost d s element_id =
     (case get_element d element_id of
        None \<Rightarrow> Some []
      | Some edef \<Rightarrow>
          (case elements s element_id of
             None \<Rightarrow> None
           | Some es \<Rightarrow> current_cost d s edef element_id (count es)))"

text \<open>The loop of \<^verbatim>\<open>compute_time_to_afford\<close>; \<open>None\<close> is its \<^verbatim>\<open>return None\<close>.\<close>

fun time_loop :: "game_state \<Rightarrow> cost \<Rightarrow> real \<Rightarrow> real option" where
  "time_loop s [] max_time = Some max_time"
| "time_loop s ((cur_id, amount) # rest) max_time =
     (let cur = currency_value s cur_id
      in if cur \<ge> amount then time_loop s rest max_time
         else (let rate = currency_rate s cur_id
               in if rate \<le> 0 then None
                  else (let needed = amount - cur; t = needed / rate
                        in time_loop s rest (if t > max_time then t else max_time))))"

text \<open>The outer \<open>option\<close> is the exception, the inner one the returned \<^verbatim>\<open>float | None\<close>.\<close>

definition compute_time_to_afford :: "game_definition \<Rightarrow> game_state \<Rightarrow> string \<Rightarrow> real option option" where
  "compute_time_to_afford d s element_id =
     (case compute_current_cost d s element_id of
        None \<Rightarrow> None
      | Some cost \<Rightarrow> if cost = [] then Some None else Some (time_loop s cost 0))"

subsection \<open>GreedyROI (\<^verbatim>\<open>strategy.py\<close>)\<close>

text \<open>
  The strategy holds a reference to the simulation's runtime; the \<^verbatim>\<open>state\<close> argument
  of \<^verbatim>\<open>decide_purchases\<close> is that runtime's live state. \<open>has_runtime\<close> is
  \<^verbatim>\<open>self.runtime is not None\<close>. A score is a float or \<^verbatim>\<open>float("inf")\<close>.
\<close>

datatype roi = Infinite | Finite real

definition total_rate :: "game_definition \<Rightarrow> game_state \<Rightarrow> real" where
  "total_rate d s = sum_list (map (\<lambda>cdef. currency_rate s (c_id cdef)) (d_currencies d))"

definition refund :: "string \<times> real \<Rightarrow> game_state \<Rightarrow> game_state option" where
  "refund ca s =
     (case ca of (cid, amt) \<Rightarrow>
        (case currencies s cid of
           None \<Rightarrow> None
         | Some cs \<Rightarrow>
             Some (s\<lparr>currencies := (currencies s)(cid \<mapsto> cs\<lparr>current := current cs + amt\<rparr>)\<rparr>)))"

definition restore_rate :: "string \<times> real \<Rightarrow> game_state \<Rightarrow> game_state option" where
  "restore_rate cr s =
     (case cr of (cid, rate) \<Rightarrow>
        (case currencies s cid of
           None \<Rightarrow> None
         | Some cs \<Rightarrow>
             Some (s\<lparr>currencies := (currencies s)(cid \<mapsto> cs\<lparr>current_rate := rate\<rparr>)\<rparr>)))"

text \<open>The undo of a speculative purchase, from \<^verbatim>\<open>es = state.elements[elem.id]\<close> on.\<close>

definition undo_purchase ::
  "game_definition \<Rightarrow> string \<Rightarrow> (string \<times> real) list \<Rightarrow> game_state \<Rightarrow> game_state option" where
  "undo_purchase d element_id old_rates s =
     do {
       es \<leftarrow> elements s element_id;
       let s1 = s\<lparr>elements := (elements s)(element_id \<mapsto> es\<lparr>count := count es - 1\<rparr>)\<rparr>;
       s2 \<leftarrow> (case get_element d element_id of
                None \<Rightarrow> Some s1
              | Some edef \<Rightarrow>
                  do {
                    cost \<leftarrow> current_cost d s1 edef element_id (count es - 1);
                    mfold refund cost s1
                  });
       mfold restore_rate old_rates s2
     }"

text \<open>One round of the loop \<^verbatim>\<open>for elem in affordable\<close> (the argument \<open>candidates\<close> below).\<close>

definition speculate ::
  "game_definition \<Rightarrow> real \<Rightarrow> element_status \<Rightarrow> runtime \<times> (string \<times> roi) list
     \<Rightarrow> (runtime \<times> (string \<times> roi) list) option" where
  "speculate d current_total_rate elem acc =
     (case acc of (rt, scored) \<Rightarrow>
        (let cost_total = sum_list (map snd (es_current_cost elem))
         in if cost_total \<le> 0 then Some (rt, scored @ [(es_id elem, Infinite)])
            else
              (let old_rates =
                     map (\<lambda>cdef. (c_id cdef, currency_rate (state rt) (c_id cdef))) (d_currencies d)
               in case try_purchase d rt (es_id elem) of
                    None \<Rightarrow> None
                  | Some (bought, rt1) \<Rightarrow>
                      if \<not> bought then Some (rt1, scored)
                      else
                        do {
                          s2 \<leftarrow> recompute_rates d (pipeline rt1) (state rt1);
                          let new_total = total_rate d s2;
                          let delta_rate = new_total - current_total_rate;
                          let r = (if cost_total > 0 then delta_rate / cost_total else 0);
                          s3 \<leftarrow> undo_purchase d (es_id elem) old_rates s2;
                          Some (rt1\<lparr>state := s3, dirty := True\<rparr>, scored @ [(es_id elem, Finite r)])
                        })))"

text \<open>\<^verbatim>\<open>scored.sort(key=lambda x: -x[1])\<close>: a stable sort, infinite scores first.\<close>

fun roi_key :: "string \<times> roi \<Rightarrow> nat \<times> real" where
  "roi_key (i, Infinite) = (0, 0)"
| "roi_key (i, Finite r) = (1, - r)"

definition GreedyROI_decide_purchases ::
  "game_definition \<Rightarrow> bool \<Rightarrow> runtime \<Rightarrow> element_status list \<Rightarrow> (string list \<times> runtime) option" where
  "GreedyROI_decide_purchases d has_runtime rt candidates =
     (if candidates = [] \<or> \<not> has_runtime then Some (map es_id candidates, rt)
      else (case mfold (speculate d (total_rate d (state rt))) candidates (rt, []) of
              None \<Rightarrow> None
            | Some (rt', scored) \<Rightarrow> Some (map fst (sort_key roi_key scored), rt')))"

subsection \<open>The tick-mode simulation (\<^verbatim>\<open>simulation.py\<close>, \<^verbatim>\<open>metrics.py\<close>, \<^verbatim>\<open>terminal.py\<close>)\<close>

text \<open>
  A strategy is an object with three methods and a memory of its own (\<open>'st\<close>); its
  \<^verbatim>\<open>decide_purchases\<close> may act on the runtime, as GreedyROI does. A terminal condition is
  its method \<^verbatim>\<open>is_met\<close>. Of the collector, the three event logs of tick mode are modelled;
  the periodic snapshots of \<^verbatim>\<open>record_tick\<close> are not, nor is the abort on a NaN or an
  infinite balance, which \<^typ>\<open>real\<close> does not have.
\<close>

record 'st strategy =
  decide_purchases :: "'st \<Rightarrow> runtime \<Rightarrow> element_status list \<Rightarrow> (string list \<times> 'st \<times> runtime) option"
  get_clicks :: "'st \<Rightarrow> game_state \<Rightarrow> real \<Rightarrow> bool \<Rightarrow> (string \<times> int) list"
  should_prestige :: "'st \<Rightarrow> game_state \<Rightarrow> string \<Rightarrow> bool"

record sim_context =
  last_purchase_time :: real
  stall_detected :: bool
  total_purchases :: int

record purchase_event =
  pe_time :: real
  pe_element_id :: string
  cost_paid :: cost
  currencies_after :: "string \<rightharpoonup> real"

record milestone_event =
  me_time :: real
  milestone_id :: string

record prestige_event =
  pr_time :: real
  layer_id :: string
  pr_reward_amount :: real
  run_duration :: real

record 'st sim =
  sim_runtime :: runtime
  strat_memory :: 'st
  ctx :: sim_context
  purchases :: "purchase_event list"
  milestones :: "milestone_event list"
  prestiges :: "prestige_event list"
  milestones_seen :: "string set"

definition MAX_TICKS :: nat where
  "MAX_TICKS = 10000000"

definition Simulation :: "game_definition \<Rightarrow> 'st \<Rightarrow> 'st sim option" where
  "Simulation d memory =
     (case GameRuntime d of
        None \<Rightarrow> None
      | Some rt \<Rightarrow>
          Some \<lparr>sim_runtime = rt, strat_memory = memory,
                ctx = \<lparr>last_purchase_time = 0, stall_detected = False, total_purchases = 0\<rparr>,
                purchases = [], milestones = [], prestiges = [], milestones_seen = {}\<rparr>)"

text \<open>Step 2: \<^verbatim>\<open>for target, count in clicks.items(): for _ in range(count): ...\<close>\<close>

definition click_many :: "game_definition \<Rightarrow> string \<times> int \<Rightarrow> runtime \<Rightarrow> runtime option" where
  "click_many d tc rt =
     (case tc of (tgt, n) \<Rightarrow>
        mfold (\<lambda>_ rt. map_option snd (process_click d rt tgt)) (replicate (nat n) ()) rt)"

text \<open>Step 3, one round of \<^verbatim>\<open>for element_id in to_buy\<close>.\<close>

definition buy_one :: "game_definition \<Rightarrow> string \<Rightarrow> 'st sim \<Rightarrow> 'st sim option" where
  "buy_one d element_id sm =
     do {
       cost \<leftarrow> compute_current_cost d (state (sim_runtime sm)) element_id;
       (bought, rt) \<leftarrow> try_purchase d (sim_runtime sm) element_id;
       if bought then
         do {
           _ \<leftarrow> get_affordable_purchases d (state rt);
           Some (sm\<lparr>sim_runtime := rt,
                   purchases := purchases sm @
                     [\<lparr>pe_time = time_elapsed (state rt), pe_element_id = element_id,
                       cost_paid = cost,
                       currencies_after = map_option current \<circ> currencies (state rt)\<rparr>],
                   ctx := (ctx sm)\<lparr>last_purchase_time := time_elapsed (state rt),
                                total_purchases := total_purchases (ctx sm) + 1\<rparr>\<rparr>)
         }
       else Some (sm\<lparr>sim_runtime := rt\<rparr>)
     }"

text \<open>Step 4, one round of \<^verbatim>\<open>for layer in self.definition.prestige_layers\<close>.\<close>

definition prestige_one ::
  "game_definition \<Rightarrow> 'st strategy \<Rightarrow> prestige_layer_def \<Rightarrow> 'st sim \<Rightarrow> 'st sim option" where
  "prestige_one d strategy layer sm =
     (if should_prestige strategy (strat_memory sm) (state (sim_runtime sm)) (p_id layer) then
        (case trigger_prestige d (sim_runtime sm) (p_id layer) of
           None \<Rightarrow> None
         | Some (result, rt) \<Rightarrow>
             Some (if success result
                   then sm\<lparr>sim_runtime := rt,
                           prestiges := prestiges sm @
                             [\<lparr>pr_time = time_elapsed (state rt), layer_id = p_id layer,
                               pr_reward_amount = reward_amount result,
                               run_duration = time_elapsed (state rt)\<rparr>]\<rparr>
                   else sm\<lparr>sim_runtime := rt\<rparr>))
      else Some sm)"

text \<open>
  Step 5: \<^verbatim>\<open>for mid, mtime in state.milestones_reached.items(): if mid not in
  milestones_seen: ...\<close>, with \<^verbatim>\<open>record_milestone\<close> of the collector.
\<close>

definition record_milestone :: "string \<times> real \<Rightarrow> 'st sim \<Rightarrow> 'st sim" where
  "record_milestone mt sm =
     (case mt of (mid, mtime) \<Rightarrow>
        if mid \<notin> milestones_seen sm
        then sm\<lparr>milestones_seen := insert mid (milestones_seen sm),
                milestones := milestones sm @
                  [\<lparr>me_time = time_elapsed (state (sim_runtime sm)), milestone_id = mid\<rparr>]\<rparr>
        else sm)"

definition record_new_milestones :: "'st sim \<Rightarrow> 'st sim" where
  "record_new_milestones sm = fold record_milestone (milestones_reached (state (sim_runtime sm))) sm"

text \<open>The body of the \<^verbatim>\<open>while\<close> loop of \<^verbatim>\<open>_run_tick\<close>, steps 1 to 5.\<close>

definition run_tick_body ::
  "game_definition \<Rightarrow> 'st strategy \<Rightarrow> real \<Rightarrow> 'st sim \<Rightarrow> 'st sim option" where
  "run_tick_body d strategy tick_resolution sm =
     do {
       rt1 \<leftarrow> tick d (sim_runtime sm) tick_resolution;
       rt2 \<leftarrow> mfold (click_many d)
                (get_clicks strategy (strat_memory sm) (state rt1) tick_resolution False) rt1;
       candidates \<leftarrow> get_affordable_purchases d (state rt2);
       (to_buy, memory, rt3) \<leftarrow> decide_purchases strategy (strat_memory sm) rt2 candidates;
       sm3 \<leftarrow> mfold (buy_one d) to_buy (sm\<lparr>sim_runtime := rt3, strat_memory := memory\<rparr>);
       sm4 \<leftarrow> mfold (prestige_one d strategy) (prestige_layers d) sm3;
       Some (record_new_milestones sm4)
     }"

text \<open>
  The loop: \<open>n\<close> counts the rounds left before \<^verbatim>\<open>tick_count > MAX_TICKS\<close> breaks it.
  The set \<^verbatim>\<open>milestones_seen\<close> is a local variable of \<^verbatim>\<open>_run_tick\<close>, empty when the run
  starts; the record holds it between the rounds.
\<close>

fun run_tick_loop ::
  "game_definition \<Rightarrow> 'st strategy \<Rightarrow> (game_state \<Rightarrow> sim_context \<Rightarrow> bool) \<Rightarrow> real \<Rightarrow> nat
     \<Rightarrow> 'st sim \<Rightarrow> 'st sim option" where
  "run_tick_loop d strategy is_met tick_resolution 0 sm = Some sm"
| "run_tick_loop d strategy is_met tick_resolution (Suc n) sm =
     (if is_met (state (sim_runtime sm)) (ctx sm) then Some sm
      else (case run_tick_body d strategy tick_resolution sm of
              None \<Rightarrow> None
            | Some sm' \<Rightarrow> run_tick_loop d strategy is_met tick_resolution n sm'))"

definition run_tick ::
  "game_definition \<Rightarrow> 'st strategy \<Rightarrow> (game_state \<Rightarrow> sim_context \<Rightarrow> bool) \<Rightarrow> real
     \<Rightarrow> 'st sim \<Rightarrow> 'st sim option" where
  "run_tick d strategy is_met tick_resolution sm =
     run_tick_loop d strategy is_met tick_resolution MAX_TICKS (sm\<lparr>milestones_seen := {}\<rparr>)"

section \<open>Notions used to state the properties\<close>

text \<open>The values of one effect type in a list of resolved effects, in order.\<close>

definition values_of :: "effect_type \<Rightarrow> resolved_effect list \<Rightarrow> real list" where
  "values_of ty effs = map snd (filter (\<lambda>(t, v). t = ty) effs)"

text \<open>A state with no currency and no element.\<close>

definition blank_state :: game_state where
  "blank_state =
     \<lparr>time_elapsed = 0, currencies = Map.empty, elements = Map.empty,
      milestones_reached = [], prestige_counts = Map.empty, run_number = 1\<rparr>"

definition only_currencies :: "game_state \<Rightarrow> game_state \<Rightarrow> bool" where
  "only_currencies s s' \<longleftrightarrow> s' = s\<lparr>currencies := currencies s'\<rparr>"

definition only_flags :: "game_state \<Rightarrow> game_state \<Rightarrow> bool" where
  "only_flags s s' \<longleftrightarrow>
     s' = s\<lparr>elements := elements s'\<rparr> \<and>
     (\<forall>i. map_option (\<lambda>es. (count es, unlocked es)) (elements s' i)
          = map_option (\<lambda>es. (count es, unlocked es)) (elements s i))"

definition is_unlocked :: "game_state \<Rightarrow> string \<Rightarrow> bool" where
  "is_unlocked s i = (case elements s i of Some es \<Rightarrow> unlocked es | None \<Rightarrow> False)"

definition is_available :: "game_state \<Rightarrow> string \<Rightarrow> bool" where
  "is_available s i = (case elements s i of Some es \<Rightarrow> available es | None \<Rightarrow> False)"

definition latched :: "game_state \<Rightarrow> game_state \<Rightarrow> bool" where
  "latched s s' \<longleftrightarrow>
     (\<forall>i. is_unlocked s i \<longrightarrow> is_unlocked s' i) \<and>
     (\<forall>m t. map_of (milestones_reached s) m = Some t \<longrightarrow> map_of (milestones_reached s') m = Some t)"

text \<open>
  A state property is \<open>upward\<close> when it survives every step that keeps the unlocked
  flags that are set and the milestone entries that are recorded.
\<close>

definition upward :: "(game_state \<Rightarrow> bool) \<Rightarrow> bool" where
  "upward P \<longleftrightarrow> (\<forall>s s'. latched s s' \<longrightarrow> P s \<longrightarrow> P s')"

text \<open>The caller's callbacks and subsystems, as far as a property of the state goes.\<close>

definition callbacks_preserve :: "game_definition \<Rightarrow> (game_state \<Rightarrow> bool) \<Rightarrow> bool" where
  "callbacks_preserve d P \<longleftrightarrow>
     (\<forall>edef \<in> set (d_elements d). \<forall>cb. on_purchase edef = Some cb \<longrightarrow> (\<forall>s. P s \<longrightarrow> P (cb s))) \<and>
     (\<forall>mdef \<in> set (d_milestones d). \<forall>cb. on_trigger mdef = Some cb \<longrightarrow> (\<forall>s. P s \<longrightarrow> P (cb s)))"

definition subsystems_preserve :: "runtime \<Rightarrow> (game_state \<Rightarrow> bool) \<Rightarrow> bool" where
  "subsystems_preserve rt P \<longleftrightarrow> (\<forall>sub \<in> set (subsystems rt). \<forall>s delta. P s \<longrightarrow> P (sub s delta))"

text \<open>
  What a cost dict charges to currency \<open>c\<close>: the amount under the key \<open>c\<close>, or 0 when
  the cost does not name \<open>c\<close> (a dict has one entry for a key).
\<close>

definition paid :: "cost \<Rightarrow> string \<Rightarrow> real" where
  "paid cost c = sum_list (map snd (filter (\<lambda>(k, v). k = c) cost))"


section \<open>Example games\<close>




text \<open>
  A vault that opens with five keys, or at once through the UNLOCK effect of a key; the
  prestige layer resets both elements.
\<close>

definition vault_game :: game_definition where
  "vault_game =
     \<lparr>d_currencies =
        [\<lparr>c_id = ''gold'', initial_value = 1000, cap = None, persistent = False\<rparr>,
         \<lparr>c_id = ''gems'', initial_value = 0, cap = None, persistent = True\<rparr>],
      d_elements =
        [\<lparr>e_id = ''key'', base_cost = [(''gold'', 10)], cost_scaling = fixed, max_count = None,
          effects = [static UNLOCK ''vault'' 0 None],
          requirements = [], purchase_requirements = [], on_purchase = None, tags = {}\<rparr>,
         \<lparr>e_id = ''vault'', base_cost = [(''gold'', 50)], cost_scaling = fixed, max_count = None,
          effects = [],
          requirements = [CountReq ''key'' ''>='' 5], purchase_requirements = [],
          on_purchase = None, tags = {}\<rparr>],
      d_milestones = [],
      prestige_layers =
        [\<lparr>p_id = ''ascend'', prestige_currency = ''gems'', reward_formula = Some (\<lambda>s. 10),
          currencies_reset = ResetList [''gold''], elements_reset = ResetList [''key'', ''vault''],
          p_requirements = [], minimum_reward = 1\<rparr>],
      click_targets = []\<rparr>"

text \<open>The vault game after one key was bought, and after the prestige that follows.\<close>

definition vault_rt1 :: runtime where
  "vault_rt1 = snd (the (try_purchase vault_game (the (GameRuntime vault_game)) ''key''))"

definition vault_rt2 :: runtime where
  "vault_rt2 = snd (the (trigger_prestige vault_game vault_rt1 ''ascend''))"

text \<open>The milestone log names no milestone twice, and names the milestones seen.\<close>

definition log_ok :: "'st sim \<Rightarrow> bool" where
  "log_ok sm \<longleftrightarrow>
     distinct (map milestone_id (milestones sm)) \<and>
     set (map milestone_id (milestones sm)) = milestones_seen sm"

text \<open>
  A game whose only milestone holds from the start: ten gold, and a milestone for owning
  ten gold. The strategy buys nothing, clicks nothing and never prestiges; the run ends
  when three seconds have passed.
\<close>

definition rich_game :: game_definition where
  "rich_game =
     \<lparr>d_currencies = [\<lparr>c_id = ''gold'', initial_value = 10, cap = None, persistent = False\<rparr>],
      d_elements = [],
      d_milestones =
        [\<lparr>m_id = ''rich'', trigger = Some (ResourceReq ''gold'' ''>='' 10), on_trigger = None\<rparr>],
      prestige_layers = [],
      click_targets = []\<rparr>"

definition idle_strategy :: "unit strategy" where
  "idle_strategy =
     \<lparr>decide_purchases = (\<lambda>memory rt candidates. Some ([], memory, rt)),
      get_clicks = (\<lambda>memory s duration is_waiting. []),
      should_prestige = (\<lambda>memory s layer. False)\<rparr>"

definition after_three :: "game_state \<Rightarrow> sim_context \<Rightarrow> bool" where
  "after_three s c = (3 \<le> time_elapsed s)"

definition rich_rt1 :: runtime where
  "rich_rt1 = the (tick rich_game (the (GameRuntime rich_game)) 1)"

text \<open>
  A prestige layer whose reward formula returns one half where the minimum reward is 1,
  gated by a requirement of \<open>need\<close> gold; the game starts with 100 gold.
\<close>

definition half_layer :: "real \<Rightarrow> prestige_layer_def" where
  "half_layer need =
     \<lparr>p_id = ''ascend'', prestige_currency = ''gems'', reward_formula = Some (\<lambda>s. 1 / 2),
      currencies_reset = ResetList [''gold''], elements_reset = ResetList [],
      p_requirements = [ResourceReq ''gold'' ''>='' need], minimum_reward = 1\<rparr>"

definition half_reward_game :: "real \<Rightarrow> game_definition" where
  "half_reward_game need =
     \<lparr>d_currencies =
        [\<lparr>c_id = ''gold'', initial_value = 100, cap = None, persistent = False\<rparr>,
         \<lparr>c_id = ''gems'', initial_value = 0, cap = None, persistent = True\<rparr>],
      d_elements = [],
      d_milestones = [],
      prestige_layers = [half_layer need],
      click_targets = []\<rparr>"

text \<open>The fresh runtimes of the game gated at 100000 gold and of the game gated at 100 gold.\<close>

definition gated_rt :: runtime where
  "gated_rt = the (GameRuntime (half_reward_game 100000))"

definition open_rt :: runtime where
  "open_rt = the (GameRuntime (half_reward_game 100))"

text \<open>
  A game with a persistent currency that clicks earn (relics), an element tagged
  persistent (statue) and one that is not (miner). The prestige layer names all of them
  in explicit reset lists.
\<close>

definition relics_def :: currency_def where
  "relics_def = \<lparr>c_id = ''relics'', initial_value = 0, cap = None, persistent = True\<rparr>"

definition statue_def :: element_def where
  "statue_def =
     \<lparr>e_id = ''statue'', base_cost = [(''gold'', 10)], cost_scaling = fixed, max_count = None,
      effects = [], requirements = [], purchase_requirements = [], on_purchase = None,
      tags = {''persistent''}\<rparr>"

definition relic_game :: game_definition where
  "relic_game =
     \<lparr>d_currencies =
        [\<lparr>c_id = ''gold'', initial_value = 50, cap = None, persistent = False\<rparr>,
         relics_def,
         \<lparr>c_id = ''gems'', initial_value = 0, cap = None, persistent = True\<rparr>],
      d_elements =
        [\<lparr>e_id = ''miner'', base_cost = [(''gold'', 10)], cost_scaling = fixed, max_count = None,
          effects = [], requirements = [], purchase_requirements = [], on_purchase = None,
          tags = {}\<rparr>,
         statue_def],
      d_milestones = [],
      prestige_layers =
        [\<lparr>p_id = ''ascend'', prestige_currency = ''gems'', reward_formula = Some (\<lambda>s. 10),
          currencies_reset = ResetList [''gold'', ''relics''],
          elements_reset = ResetList [''miner'', ''statue''],
          p_requirements = [], minimum_reward = 1\<rparr>],
      click_targets = [\<lparr>ct_currency = ''relics'', base_value = 1\<rparr>]\<rparr>"

text \<open>One click on relics, a miner and a statue bought; then the prestige.\<close>

definition relic_rt3 :: runtime where
  "relic_rt3 =
     snd (the (try_purchase relic_game
       (snd (the (try_purchase relic_game
          (snd (the (process_click relic_game (the (GameRuntime relic_game)) ''relics'')))
          ''miner''))) ''statue''))"

definition relic_rt4 :: runtime where
  "relic_rt4 = snd (the (trigger_prestige relic_game relic_rt3 ''ascend''))"

text \<open>A chest for 100 gold that grants 5 gems when bought; the game starts with 100 gold.\<close>

definition chest_game :: game_definition where
  "chest_game =
     \<lparr>d_currencies =
        [\<lparr>c_id = ''gold'', initial_value = 100, cap = None, persistent = False\<rparr>,
         \<lparr>c_id = ''gems'', initial_value = 0, cap = None, persistent = False\<rparr>],
      d_elements =
        [\<lparr>e_id = ''chest'', base_cost = [(''gold'', 100)], cost_scaling = fixed, max_count = None,
          effects = [static GRANT ''gems'' 5 None],
          requirements = [], purchase_requirements = [], on_purchase = None, tags = {}\<rparr>],
      d_milestones = [], prestige_layers = [], click_targets = []\<rparr>"

definition chest_rt0 :: runtime where
  "chest_rt0 = the (GameRuntime chest_game)"

text \<open>The runtime GreedyROI leaves after it has scored the affordable purchases.\<close>

definition chest_rt1 :: runtime where
  "chest_rt1 =
     snd (the (GreedyROI_decide_purchases chest_game True chest_rt0
       (the (get_affordable_purchases chest_game (state chest_rt0)))))"

text \<open>A click target whose base value is negative; the game starts with 10 gold.\<close>

definition penalty_game :: game_definition where
  "penalty_game =
     \<lparr>d_currencies = [\<lparr>c_id = ''gold'', initial_value = 10, cap = None, persistent = False\<rparr>],
      d_elements = [], d_milestones = [], prestige_layers = [],
      click_targets = [\<lparr>ct_currency = ''gold'', base_value = - 1\<rparr>]\<rparr>"

definition penalty_rt0 :: runtime where
  "penalty_rt0 = the (GameRuntime penalty_game)"

text \<open>An element that costs nothing (the default \<^verbatim>\<open>base_cost\<close>), in a game with no gold.\<close>

definition gift_game :: game_definition where
  "gift_game =
     \<lparr>d_currencies = [\<lparr>c_id = ''gold'', initial_value = 0, cap = None, persistent = False\<rparr>],
      d_elements =
        [\<lparr>e_id = ''gift'', base_cost = [], cost_scaling = fixed, max_count = None,
          effects = [], requirements = [], purchase_requirements = [], on_purchase = None,
          tags = {}\<rparr>],
      d_milestones = [], prestige_layers = [], click_targets = []\<rparr>"

definition gift_rt0 :: runtime where
  "gift_rt0 = the (GameRuntime gift_game)"

text \<open>An element whose multiplicative effect is built by \<^verbatim>\<open>Effect.per_count\<close>.\<close>

definition booster_game :: game_definition where
  "booster_game =
     \<lparr>d_currencies = [\<lparr>c_id = ''gold'', initial_value = 0, cap = None, persistent = False\<rparr>],
      d_elements =
        [\<lparr>e_id = ''booster'', base_cost = [(''gold'', 10)], cost_scaling = fixed, max_count = None,
          effects = [per_count ''booster'' PRODUCTION_MULT ''gold'' 2 None,
                     per_count ''booster'' GLOBAL_MULT ''gold'' 3 None],
          requirements = [], purchase_requirements = [], on_purchase = None, tags = {}\<rparr>],
      d_milestones = [], prestige_layers = [], click_targets = []\<rparr>"

text \<open>The value a prestige reset gives to currency \<open>cid\<close>.\<close>

definition reset_value :: "game_definition \<Rightarrow> string \<Rightarrow> real" where
  "reset_value d cid = (case get_currency d cid of Some cdef \<Rightarrow> initial_value cdef | None \<Rightarrow> 0)"

section \<open>The production pipeline\<close>

lemma rate_loop_eq:
  "rate_loop effs (f, a, m, g) =
     (f + sum_list (values_of PRODUCTION_FLAT effs),
      a + sum_list (values_of PRODUCTION_ADD_PCT effs),
      m * prod_list (values_of PRODUCTION_MULT effs),
      g * prod_list (values_of GLOBAL_MULT effs))"
  by (induction effs arbitrary: f a m g) (auto simp: values_of_def)

lemma rate_loop_recognized:
  "rate_loop (filter (\<lambda>(t, v). t \<in> {PRODUCTION_FLAT, PRODUCTION_ADD_PCT, PRODUCTION_MULT, GLOBAL_MULT}) effs) acc
     = rate_loop effs acc"
  by (induction effs acc rule: rate_loop.induct) auto

text \<open>
  Claim C2. For a currency with no custom pipeline, the rate computed from a list of
  resolved effects is the sum of the PRODUCTION_FLAT values, times one plus the sum of the
  PRODUCTION_ADD_PCT values, times the product of the PRODUCTION_MULT values, times the
  product of the GLOBAL_MULT values. The empty list gives the rate 0, the click value of
  the empty list is the base value, and dropping every effect of another type from the
  list leaves the rate as it is.
\<close>

theorem pipeline_formula:
  assumes "p currency_id = None"
  shows "compute_rate p currency_id effs s =
       sum_list (values_of PRODUCTION_FLAT effs) * (1 + sum_list (values_of PRODUCTION_ADD_PCT effs))
         * prod_list (values_of PRODUCTION_MULT effs) * prod_list (values_of GLOBAL_MULT effs)
   \<and> compute_rate p currency_id [] s = 0
   \<and> compute_click_value p currency_id base [] s = base
   \<and> compute_rate p currency_id
        (filter (\<lambda>(t, v). t \<in> {PRODUCTION_FLAT, PRODUCTION_ADD_PCT, PRODUCTION_MULT, GLOBAL_MULT}) effs) s
      = compute_rate p currency_id effs s"
proof (intro conjI)
  show "compute_rate p currency_id effs s =
       sum_list (values_of PRODUCTION_FLAT effs) * (1 + sum_list (values_of PRODUCTION_ADD_PCT effs))
         * prod_list (values_of PRODUCTION_MULT effs) * prod_list (values_of GLOBAL_MULT effs)"
    using assms by (simp add: compute_rate_def rate_loop_eq)
  show "compute_rate p currency_id [] s = 0"
    using assms by (simp add: compute_rate_def)
  show "compute_click_value p currency_id base [] s = base"
    by (simp add: compute_click_value_def)
  show "compute_rate p currency_id
        (filter (\<lambda>(t, v). t \<in> {PRODUCTION_FLAT, PRODUCTION_ADD_PCT, PRODUCTION_MULT, GLOBAL_MULT}) effs) s
      = compute_rate p currency_id effs s"
    using assms by (simp only: compute_rate_def rate_loop_recognized option.case)
qed

theorem pipeline_formula_witness:
  "compute_rate Map.empty ''gold''
     [(PRODUCTION_FLAT, 10), (PRODUCTION_ADD_PCT, 1 / 2), (PRODUCTION_MULT, 2),
      (CLICK_FLAT, 7), (GLOBAL_MULT, 3), (PRODUCTION_FLAT, 2)] blank_state = 108"
  using pipeline_formula [of Map.empty "''gold''"
     "[(PRODUCTION_FLAT, 10), (PRODUCTION_ADD_PCT, 1 / 2), (PRODUCTION_MULT, 2),
      (CLICK_FLAT, 7), (GLOBAL_MULT, 3), (PRODUCTION_FLAT, 2)]" blank_state 0]
  by (simp add: values_of_def)

section \<open>Loops and frames\<close>

lemma mfold_invariant:
  assumes "mfold f xs s = Some s'" and "P s"
    and step: "\<And>x s s'. x \<in> set xs \<Longrightarrow> f x s = Some s' \<Longrightarrow> P s \<Longrightarrow> P s'"
  shows "P s'"
  using assms(1,2) step
proof (induction xs arbitrary: s)
  case Nil
  then show ?case by simp
next
  case (Cons x xs)
  from Cons.prems(1) obtain s1 where 1: "f x s = Some s1" and 2: "mfold f xs s1 = Some s'"
    by (auto split: option.splits)
  have 3: "P s1" using Cons.prems(3)[of x s s1] 1 Cons.prems(2) by simp
  show ?case
  proof (rule Cons.IH[OF 2 3])
    fix y t t' assume "y \<in> set xs" "f y t = Some t'" "P t"
    then show "P t'" using Cons.prems(3)[of y t t'] by simp
  qed
qed

lemma mfold_rel:
  assumes "mfold f xs s = Some s'"
    and refl: "\<And>s. R s s" and trans: "\<And>a b c. R a b \<Longrightarrow> R b c \<Longrightarrow> R a c"
    and step: "\<And>x s s'. x \<in> set xs \<Longrightarrow> f x s = Some s' \<Longrightarrow> R s s'"
  shows "R s s'"
proof -
  have "R s s'"
    using assms(1) refl[of s]
    by (rule mfold_invariant[where P = "R s"]) (blast intro: trans step)
  then show ?thesis .
qed


lemma only_currencies_refl: "only_currencies s s" by (simp add: only_currencies_def)
lemma only_currencies_trans: "only_currencies a b \<Longrightarrow> only_currencies b c \<Longrightarrow> only_currencies a c"
  unfolding only_currencies_def by (cases a; cases b; cases c) simp

lemma only_flags_refl: "only_flags s s" by (simp add: only_flags_def)
lemma only_flags_trans: "only_flags a b \<Longrightarrow> only_flags b c \<Longrightarrow> only_flags a c"
  unfolding only_flags_def 
  apply (cases a; cases b; cases c) by simp

lemma latched_refl: "latched s s" by (simp add: latched_def)
lemma latched_trans: "latched a b \<Longrightarrow> latched b c \<Longrightarrow> latched a c" by (simp add: latched_def)

lemma only_currencies_latched: "only_currencies s s' \<Longrightarrow> latched s s'"
  unfolding only_currencies_def latched_def is_unlocked_def
  by (cases s; cases s') simp

lemma only_flags_unlocked: "only_flags s s' \<Longrightarrow> is_unlocked s' i = is_unlocked s i"
proof -
  assume "only_flags s s'"
  then have "map_option (\<lambda>es. (count es, unlocked es)) (elements s' i)
          = map_option (\<lambda>es. (count es, unlocked es)) (elements s i)"
    by (simp add: only_flags_def)
  then show ?thesis
    by (cases "elements s i"; cases "elements s' i") (simp_all add: is_unlocked_def)
qed

lemma only_flags_count: "only_flags s s' \<Longrightarrow> element_count s' i = element_count s i"
proof -
  assume "only_flags s s'"
  then have "map_option (\<lambda>es. (count es, unlocked es)) (elements s' i)
          = map_option (\<lambda>es. (count es, unlocked es)) (elements s i)"
    by (simp add: only_flags_def)
  then show ?thesis
    by (cases "elements s i"; cases "elements s' i") (simp_all add: element_count_def)
qed

lemma only_flags_fields:
  "only_flags s s' \<Longrightarrow> currencies s' = currencies s \<and> milestones_reached s' = milestones_reached s
     \<and> time_elapsed s' = time_elapsed s \<and> prestige_counts s' = prestige_counts s \<and> run_number s' = run_number s"
  unfolding only_flags_def by (cases s; cases s') simp

lemma only_flags_latched: "only_flags s s' \<Longrightarrow> latched s s'"
  by (simp add: latched_def only_flags_unlocked only_flags_fields)

lemma update_element_status_flags:
  "update_element_status d edef s = Some s' \<Longrightarrow> only_flags s s'"
  unfolding update_element_status_def only_flags_def
  by (auto split: option.splits if_splits simp: Let_def)

lemma update_element_statuses_flags:
  "update_element_statuses d s = Some s' \<Longrightarrow> only_flags s s'"
  unfolding update_element_statuses_def
  by (erule mfold_rel) (auto intro: only_flags_refl only_flags_trans update_element_status_flags)

lemma mfold_only_currencies:
  "mfold f xs s = Some s' \<Longrightarrow> (\<And>x s s'. x \<in> set xs \<Longrightarrow> f x s = Some s' \<Longrightarrow> only_currencies s s') \<Longrightarrow> only_currencies s s'"
  by (erule mfold_rel) (auto intro: only_currencies_refl only_currencies_trans)

lemma deduct_only_currencies: "deduct ca s = Some s' \<Longrightarrow> only_currencies s s'"
  by (auto simp: deduct_def only_currencies_def split: prod.splits option.splits)

lemma refund_only_currencies: "refund ca s = Some s' \<Longrightarrow> only_currencies s s'"
  by (auto simp: refund_def only_currencies_def split: prod.splits option.splits)

lemma restore_rate_only_currencies: "restore_rate ca s = Some s' \<Longrightarrow> only_currencies s s'"
  by (auto simp: restore_rate_def only_currencies_def split: prod.splits option.splits)

lemma clamp_to_cap_only_currencies: "clamp_to_cap d i s = Some s' \<Longrightarrow> only_currencies s s'"
  by (auto simp: clamp_to_cap_def only_currencies_def split: option.splits if_splits)

lemma production_step_only_currencies: "production_step d delta cdef s = Some s' \<Longrightarrow> only_currencies s s'"
  unfolding production_step_def
  by (auto simp: Let_def only_currencies_def split: option.splits if_splits
           dest!: clamp_to_cap_only_currencies)

lemma auto_click_step_only_currencies: "auto_click_step d delta eff s = Some s' \<Longrightarrow> only_currencies s s'"
  by (auto simp: auto_click_step_def Let_def only_currencies_def split: option.splits if_splits)

lemma process_auto_clicks_only_currencies: "process_auto_clicks d s delta = Some s' \<Longrightarrow> only_currencies s s'"
  unfolding process_auto_clicks_def
  apply (erule mfold_only_currencies)
  apply (auto split: option.splits if_splits intro: only_currencies_refl)
  apply (erule mfold_only_currencies)
  apply (erule auto_click_step_only_currencies)
  done

lemma set_rate_only_currencies: "set_rate p g cdef s = Some s' \<Longrightarrow> only_currencies s s'"
  by (auto simp: set_rate_def Let_def only_currencies_def split: option.splits prod.splits)

lemma recompute_rates_only_currencies: "recompute_rates d p s = Some s' \<Longrightarrow> only_currencies s s'"
  unfolding recompute_rates_def
  by (auto split: option.splits elim!: mfold_only_currencies dest: set_rate_only_currencies)

lemma reset_currency_only_currencies: "only_currencies s (reset_currency d cid s)"
  by (auto simp: reset_currency_def Let_def only_currencies_def split: option.splits)

lemma grant_reward_only_currencies: "only_currencies s (grant_reward pc r s)"
  by (auto simp: grant_reward_def only_currencies_def split: option.splits)

lemma fold_rel:
  assumes refl: "\<And>s. R s s" and trans: "\<And>a b c. R a b \<Longrightarrow> R b c \<Longrightarrow> R a c"
    and step: "\<And>x s. x \<in> set xs \<Longrightarrow> R s (f x s)"
  shows "R s (fold f xs s)"
  using step
proof (induction xs arbitrary: s)
  case Nil then show ?case using refl by simp
next
  case (Cons x xs)
  have "R s (f x s)" using Cons.prems by simp
  moreover have "R (f x s) (fold f xs (f x s))" using Cons.IH Cons.prems by simp
  ultimately show ?case using trans by auto
qed

lemma reset_element_latched: "latched s (reset_element d eid s)"
  by (auto simp: reset_element_def latched_def is_unlocked_def split: option.splits)

lemma apply_immediate_effect_latched: "latched s (apply_immediate_effect eff s)"
  by (auto simp: apply_immediate_effect_def Let_def latched_def is_unlocked_def split: option.splits)

lemma apply_immediate_effects_latched: "latched s (apply_immediate_effects edef s)"
  unfolding apply_immediate_effects_def
  by (rule fold_rel) (auto intro: latched_refl latched_trans apply_immediate_effect_latched)

lemma dict_set_map_of: "map_of (dict_set kvs k v) = (map_of kvs)(k \<mapsto> v)"
  by (induction kvs) (auto simp: fun_eq_iff)

lemma check_milestone_preserves:
  assumes "check_milestone mdef s = Some s'" and "P s"
    and up: "\<And>s s'. latched s s' \<Longrightarrow> P s \<Longrightarrow> P s'"
    and cb: "\<And>cb s. on_trigger mdef = Some cb \<Longrightarrow> P s \<Longrightarrow> P (cb s)"
  shows "P s'"
proof (cases "m_id mdef \<in> set (map fst (milestones_reached s))")
  case True
  then show ?thesis using assms(1,2) by (simp add: check_milestone_def)
next
  case False
  let ?s1 = "s\<lparr>milestones_reached := dict_set (milestones_reached s) (m_id mdef) (time_elapsed s)\<rparr>"
  have "map_of (milestones_reached s) (m_id mdef) = None"
    using False by (simp add: map_of_eq_None_iff)
  then have "latched s ?s1"
    by (auto simp: latched_def is_unlocked_def dict_set_map_of)
  then have 1: "P ?s1" using up assms(2) by blast
  show ?thesis using assms(1) False 1 assms(2) cb[of _ ?s1]
    by (auto simp: check_milestone_def run_callback_def Let_def split: option.splits if_splits)
qed

lemma upwardD: "upward P \<Longrightarrow> latched s s' \<Longrightarrow> P s \<Longrightarrow> P s'"
  by (auto simp: upward_def)

lemma latched_time: "latched s (s\<lparr>time_elapsed := t\<rparr>)"
  by (simp add: latched_def is_unlocked_def)

lemma latched_count: "elements s e = Some es \<Longrightarrow>
   latched s (s\<lparr>elements := (elements s)(e \<mapsto> es\<lparr>count := n\<rparr>)\<rparr>)"
  by (simp add: latched_def is_unlocked_def)

lemma latched_prestige: "latched s (s\<lparr>prestige_counts := pc, run_number := n\<rparr>)"
  by (simp add: latched_def is_unlocked_def)

lemma get_element_mem: "get_element d i = Some edef \<Longrightarrow> edef \<in> set (d_elements d) \<and> e_id edef = i"
proof -
  assume "get_element d i = Some edef"
  then have f: "find (\<lambda>e. e_id e = i) (rev (d_elements d)) = Some edef"
    by (simp add: get_element_def)
  then obtain k where "k < length (rev (d_elements d))" "e_id (rev (d_elements d) ! k) = i"
    "edef = rev (d_elements d) ! k"
    by (auto simp: find_Some_iff)
  then have "edef \<in> set (rev (d_elements d))" "e_id edef = i"
    using nth_mem by blast+
  then show ?thesis by simp
qed

lemma check_milestones_preserves:
  assumes "check_milestones d s = Some s'" and "upward P" and "callbacks_preserve d P" and "P s"
  shows "P s'"
  using assms(1) unfolding check_milestones_def
proof (rule mfold_invariant[where P = P])
  show "P s" by fact
next
  fix x t t' assume x: "x \<in> set (d_milestones d)" and c: "check_milestone x t = Some t'" and p: "P t"
  show "P t'"
    using c p
  proof (rule check_milestone_preserves)
    fix a b assume "latched a b" "P a" then show "P b" using assms(2) by (blast intro: upwardD)
  next
    fix cb u assume "on_trigger x = Some cb" "P u"
    then show "P (cb u)" using assms(3) x by (auto simp: callbacks_preserve_def)
  qed
qed

lemma subsystems_fold_preserves:
  assumes "subsystems_preserve rt P" and "P s"
  shows "P (fold (\<lambda>sub s. sub s delta) (subsystems rt) s)"
proof -
  have "\<And>xs. set xs \<subseteq> set (subsystems rt) \<Longrightarrow> P s \<Longrightarrow> P (fold (\<lambda>sub s. sub s delta) xs s)" for s
    subgoal for xs
      using assms(1) by (induction xs arbitrary: s) (auto simp: subsystems_preserve_def)
    done
  then show ?thesis using assms(2) by blast
qed

lemma tick_preserves:
  assumes t: "tick d rt delta = Some rt'" and up: "upward P" and cb: "callbacks_preserve d P"
    and sub: "subsystems_preserve rt P" and p: "P (state rt)"
  shows "P (state rt')"
proof -
  from t obtain s0 s1 s2 s3 s4 where
    0: "(if dirty rt then recompute_rates d (pipeline rt) (state rt) else Some (state rt)) = Some s0"
    and 1: "mfold (production_step d delta) (d_currencies d) s0 = Some s1"
    and 2: "process_auto_clicks d s1 delta = Some s2"
    and 3: "update_element_statuses d (s2\<lparr>time_elapsed := time_elapsed s2 + delta\<rparr>) = Some s3"
    and 4: "check_milestones d s3 = Some s4"
    and 5: "rt' = rt\<lparr>state := fold (\<lambda>sub s. sub s delta) (subsystems rt) s4, dirty := False\<rparr>"
    unfolding tick_def by (auto simp: bind_eq_Some_conv)
  have "latched (state rt) s0"
    using 0 by (auto split: if_splits intro: latched_refl only_currencies_latched recompute_rates_only_currencies)
  moreover have "latched s0 s1"
    using 1 by (auto intro!: only_currencies_latched elim!: mfold_only_currencies
                     dest: production_step_only_currencies)
  moreover have "latched s1 s2"
    using 2 by (auto intro: only_currencies_latched process_auto_clicks_only_currencies)
  moreover have "latched s2 s3"
    using 3 by (blast intro: latched_trans latched_time only_flags_latched update_element_statuses_flags)
  ultimately have "latched (state rt) s3" by (blast intro: latched_trans)
  then have "P s3" using up p by (blast intro: upwardD)
  then have "P s4" using check_milestones_preserves[OF 4 up cb] by simp
  then show ?thesis using 5 subsystems_fold_preserves[OF sub] by simp
qed

lemma try_purchase_failure: "try_purchase d rt e = Some (False, rt') \<Longrightarrow> rt' = rt"
  unfolding try_purchase_def
  by (auto simp: bind_eq_Some_conv Let_def split: option.splits if_splits)

lemma try_purchase_success:
  assumes "try_purchase d rt e = Some (True, rt')"
  obtains edef es cost s1 s5 where
    "get_element d e = Some edef" "elements (state rt) e = Some es"
    "\<not> (case max_count edef of None \<Rightarrow> False | Some m \<Rightarrow> m \<le> count es)"
    "available es \<or> unlocked es"
    "evaluate_all (purchase_requirements edef) (state rt) = Some True"
    "current_cost d (state rt) edef e (count es) = Some cost"
    "\<not> list_ex (\<lambda>(cur_id, amount). currency_value (state rt) cur_id < amount) cost"
    "mfold deduct cost (state rt) = Some s1"
    "update_element_statuses d
       (run_callback (on_purchase edef)
          (apply_immediate_effects edef
             (s1\<lparr>elements := (elements s1)(e \<mapsto> es\<lparr>count := count es + 1\<rparr>)\<rparr>))) = Some s5"
    "rt' = rt\<lparr>state := s5, dirty := True\<rparr>"
  using assms unfolding try_purchase_def
  by (auto simp: bind_eq_Some_conv Let_def split: option.splits if_splits)

section \<open>Purchases\<close>

lemma paid_Cons: "paid ((k, v) # cost) c = (if k = c then v else 0) + paid cost c"
  by (simp add: paid_def)

lemma paid_distinct: "distinct (map fst cost) \<Longrightarrow> (c, a) \<in> set cost \<Longrightarrow> paid cost c = a"
proof (induction cost)
  case Nil
  then show ?case by simp
next
  case (Cons x cost)
  obtain k v where x: "x = (k, v)" by (cases x)
  show ?case
  proof (cases "k = c")
    case True
    then have "c \<notin> fst ` set cost" using Cons.prems(1) x by auto
    then have "filter (\<lambda>(k, v). k = c) cost = []"
      by (auto simp: filter_empty_conv image_iff)
    then have "paid cost c = 0" by (simp add: paid_def)
    moreover have "a = v" using Cons.prems x True \<open>c \<notin> fst ` set cost\<close> by (auto simp: image_iff)
    ultimately show ?thesis using x True by (simp add: paid_Cons)
  next
    case False
    then show ?thesis using Cons x by (auto simp: paid_Cons)
  qed
qed

lemma paid_unnamed: "c \<notin> fst ` set cost \<Longrightarrow> paid cost c = 0"
proof -
  assume "c \<notin> fst ` set cost"
  then have "filter (\<lambda>(k, v). k = c) cost = []"
    by (auto simp: filter_empty_conv image_iff)
  then show ?thesis by (simp add: paid_def)
qed



lemma mfold_deduct_only_currencies: "mfold deduct cost s = Some s' \<Longrightarrow> only_currencies s s'"
  by (erule mfold_only_currencies) (rule deduct_only_currencies)

lemma only_currencies_fields:
  "only_currencies s s' \<Longrightarrow> elements s' = elements s \<and> milestones_reached s' = milestones_reached s
     \<and> time_elapsed s' = time_elapsed s \<and> prestige_counts s' = prestige_counts s \<and> run_number s' = run_number s"
  unfolding only_currencies_def by (cases s; cases s') simp








lemma deduct_totals:
  "deduct x t = Some t' \<Longrightarrow>
     total_earned_of t' c = total_earned_of t c \<and> currency_rate t' c = currency_rate t c"
  by (cases x) (auto simp: deduct_def total_earned_of_def currency_rate_def split: option.splits if_splits)

lemma mfold_deduct_totals:
  assumes "mfold deduct cost s = Some s'"
  shows "total_earned_of s' c = total_earned_of s c \<and> currency_rate s' c = currency_rate s c"
  using assms
proof (rule mfold_invariant[where P = "\<lambda>t. total_earned_of t c = total_earned_of s c \<and>
                                             currency_rate t c = currency_rate s c"])
  show "total_earned_of s c = total_earned_of s c \<and> currency_rate s c = currency_rate s c" by simp
next
  fix x t t'
  assume "deduct x t = Some t'"
    and "total_earned_of t c = total_earned_of s c \<and> currency_rate t c = currency_rate s c"
  then show "total_earned_of t' c = total_earned_of s c \<and> currency_rate t' c = currency_rate s c"
    using deduct_totals[of x t t' c] by simp
qed


section \<open>Evaluating the example games\<close>

lemmas model_defs =
  currency_value_def currency_rate_def element_count_def has_milestone_def total_earned_of_def
  run_callback_def compare_def scale_cost_def fixed_def exponential_def linear_def custom_def
  compute_def EffectDef_def resolve_def is_active_def per_count_def static_def synergy_def
  get_currency_def get_element_def get_milestone_def get_prestige_layer_def get_click_target_def
  effect_target_errors_def prestige_errors_def validate_errors_def validate_warnings_def validate_def
  GameState_def over_owned_effects_def cost_effect_step_def apply_cost_effects_def current_cost_def
  cap_effect_step_def resolve_cap_def clamp_to_cap_def can_pay_def update_element_status_def
  update_element_statuses_def check_milestone_def check_milestones_def apply_immediate_effect_def
  auto_click_step_def process_auto_clicks_def gather_step_def set_rate_def recompute_rates_def
  GameRuntime_def production_step_def tick_def deduct_def apply_immediate_effects_def
  try_purchase_def click_effect_step_def process_click_def failed_result_def resolve_reset_list_def
  reset_currency_def reset_element_def grant_reward_def apply_prestige_def trigger_prestige_def
  available_purchase_def get_available_purchases_def get_affordable_purchases_def
  compute_current_cost_def compute_time_to_afford_def compute_rate_def compute_click_value_def
  Let_def







section \<open>What purchases, clicks and prestige preserve\<close>

lemma callbacks_on_purchase:
  "callbacks_preserve d P \<Longrightarrow> get_element d e = Some edef \<Longrightarrow> P s \<Longrightarrow> P (run_callback (on_purchase edef) s)"
  using get_element_mem[of d e edef]
  by (auto simp: callbacks_preserve_def run_callback_def split: option.splits)

lemma try_purchase_preserves:
  assumes t: "try_purchase d rt e = Some (ok, rt')" and up: "upward P" and cb: "callbacks_preserve d P"
    and p: "P (state rt)"
  shows "P (state rt')"
proof (cases ok)
  case False
  with t have "rt' = rt" by (simp add: try_purchase_failure)
  then show ?thesis using p by simp
next
  case True
  with t have "try_purchase d rt e = Some (True, rt')" by simp
  then obtain edef es cost s1 s5 where
    edef: "get_element d e = Some edef" and es: "elements (state rt) e = Some es"
    and s1: "mfold deduct cost (state rt) = Some s1"
    and s5: "update_element_statuses d
       (run_callback (on_purchase edef)
          (apply_immediate_effects edef
             (s1\<lparr>elements := (elements s1)(e \<mapsto> es\<lparr>count := count es + 1\<rparr>)\<rparr>))) = Some s5"
    and rt': "rt' = rt\<lparr>state := s5, dirty := True\<rparr>"
    by (rule try_purchase_success)
  let ?s2 = "s1\<lparr>elements := (elements s1)(e \<mapsto> es\<lparr>count := count es + 1\<rparr>)\<rparr>"
  have 1: "only_currencies (state rt) s1" using s1 by (rule mfold_deduct_only_currencies)
  then have "elements s1 e = Some es" using es by (simp add: only_currencies_fields)
  then have "latched s1 ?s2" by (rule latched_count)
  then have "latched (state rt) (apply_immediate_effects edef ?s2)"
    using 1 by (blast intro: latched_trans only_currencies_latched apply_immediate_effects_latched)
  then have "P (apply_immediate_effects edef ?s2)" using up p by (blast intro: upwardD)
  then have "P (run_callback (on_purchase edef) (apply_immediate_effects edef ?s2))"
    using cb edef by (rule callbacks_on_purchase[rotated 2])
  then have "P s5"
    using s5 up by (blast intro: upwardD only_flags_latched update_element_statuses_flags)
  then show ?thesis using rt' by simp
qed

lemma process_click_cases:
  assumes "process_click d rt c = Some (v, rt')"
  obtains "get_click_target d c = None" "v = 0" "rt' = rt"
  | ct click_effects cs s2 where
      "get_click_target d c = Some ct"
      "over_owned_effects d (state rt) (click_effect_step (state rt) c) [] = Some click_effects"
      "v = compute_click_value (pipeline rt) c (base_value ct) click_effects (state rt)"
      "currencies (state rt) c = Some cs"
      "clamp_to_cap d c
         ((state rt)\<lparr>currencies := (currencies (state rt))(c \<mapsto>
            cs\<lparr>current := current cs + v, total_earned := total_earned cs + v\<rparr>)\<rparr>) = Some s2"
      "rt' = rt\<lparr>state := s2\<rparr>"
  using assms unfolding process_click_def
  by (cases "get_click_target d c") (auto simp: bind_eq_Some_conv Let_def)

lemma process_click_only_currencies:
  assumes "process_click d rt c = Some (v, rt')"
  shows "only_currencies (state rt) (state rt')"
  using assms
proof (cases rule: process_click_cases)
  case 1
  then show ?thesis by (simp add: only_currencies_refl)
next
  case (2 ct click_effects cs s2)
  have "only_currencies (state rt)
     ((state rt)\<lparr>currencies := (currencies (state rt))(c \<mapsto>
            cs\<lparr>current := current cs + v, total_earned := total_earned cs + v\<rparr>)\<rparr>)"
    by (simp add: only_currencies_def)
  moreover have "only_currencies
     ((state rt)\<lparr>currencies := (currencies (state rt))(c \<mapsto>
            cs\<lparr>current := current cs + v, total_earned := total_earned cs + v\<rparr>)\<rparr>) s2"
    using 2(5) by (rule clamp_to_cap_only_currencies)
  ultimately have "only_currencies (state rt) s2" by (rule only_currencies_trans)
  then show ?thesis using 2(6) by simp
qed

lemma process_click_preserves:
  assumes "process_click d rt c = Some (v, rt')" and "upward P" and "P (state rt)"
  shows "P (state rt')"
  using assms(2,3) process_click_only_currencies[OF assms(1)]
  by (blast intro: upwardD only_currencies_latched)

lemma fold_reset_currency: "only_currencies s (fold (reset_currency d) cids s)"
  by (rule fold_rel) (auto intro: only_currencies_refl only_currencies_trans reset_currency_only_currencies)

lemma fold_reset_element: "latched s (fold (reset_element d) eids s)"
  by (rule fold_rel) (auto intro: latched_refl latched_trans reset_element_latched)

lemma trigger_prestige_cases:
  assumes "trigger_prestige d rt l = Some (res, rt')"
  obtains (failed) "\<not> success res" "rt' = rt"
  | (applied) layer formula where
      "get_prestige_layer d l = Some layer"
      "evaluate_all (p_requirements layer) (state rt) = Some True"
      "reward_formula layer = Some formula"
      "\<not> formula (state rt) < minimum_reward layer"
      "apply_prestige d rt l layer (formula (state rt)) = Some (res, rt')"
proof (cases "get_prestige_layer d l")
  case None
  then show ?thesis using assms failed by (auto simp: trigger_prestige_def failed_result_def)
next
  case (Some layer)
  note layer = this
  show ?thesis
  proof (cases "evaluate_all (p_requirements layer) (state rt)")
    case None
    then show ?thesis using assms layer by (simp add: trigger_prestige_def)
  next
    case (Some met)
    note met = this
    show ?thesis
    proof (cases met)
      case False
      then show ?thesis using assms layer met failed by (auto simp: trigger_prestige_def failed_result_def)
    next
      case True
      note True' = this
      show ?thesis
      proof (cases "reward_formula layer")
        case None
        then show ?thesis using assms layer met True' failed
          by (auto simp: trigger_prestige_def failed_result_def)
      next
        case (Some formula)
        show ?thesis
        proof (cases "formula (state rt) < minimum_reward layer")
          case True
          then show ?thesis using assms layer met True' Some failed
            by (auto simp: trigger_prestige_def failed_result_def Let_def)
        next
          case False
          then have "apply_prestige d rt l layer (formula (state rt)) = Some (res, rt')"
            using assms layer met True' Some by (simp add: trigger_prestige_def Let_def)
          then show ?thesis using applied[OF layer _ Some False] met True' by simp
        qed
      qed
    qed
  qed
qed

lemma apply_prestige_result:
  assumes "apply_prestige d rt l layer reward = Some (res, rt')"
  obtains s3 s5 where
    "s3 = grant_reward (prestige_currency layer) reward
          (fold (reset_element d) (resolve_reset_list d (elements_reset layer) ''element'')
            (fold (reset_currency d) (resolve_reset_list d (currencies_reset layer) ''currency'')
               (state rt)))"
    "update_element_statuses d
       (s3\<lparr>prestige_counts :=
             (prestige_counts s3)(l \<mapsto> (case prestige_counts s3 l of None \<Rightarrow> 0 | Some n \<Rightarrow> n) + 1),
           run_number := run_number s3 + 1\<rparr>) = Some s5"
    "rt' = rt\<lparr>state := s5, dirty := True\<rparr>"
    "res = \<lparr>success = True, reward_amount = reward,
            res_currencies_reset = resolve_reset_list d (currencies_reset layer) ''currency'',
            res_elements_reset = resolve_reset_list d (elements_reset layer) ''element'',
            reason = NoReason\<rparr>"
  using assms unfolding apply_prestige_def Let_def
  by (auto split: option.splits)

lemma apply_prestige_latched:
  assumes "apply_prestige d rt l layer reward = Some (res, rt')"
  shows "latched (state rt) (state rt')"
  using assms
proof (rule apply_prestige_result)
  fix s3 s5
  assume s3: "s3 = grant_reward (prestige_currency layer) reward
          (fold (reset_element d) (resolve_reset_list d (elements_reset layer) ''element'')
            (fold (reset_currency d) (resolve_reset_list d (currencies_reset layer) ''currency'')
               (state rt)))"
    and s5: "update_element_statuses d
       (s3\<lparr>prestige_counts :=
             (prestige_counts s3)(l \<mapsto> (case prestige_counts s3 l of None \<Rightarrow> 0 | Some n \<Rightarrow> n) + 1),
           run_number := run_number s3 + 1\<rparr>) = Some s5"
    and rt': "rt' = rt\<lparr>state := s5, dirty := True\<rparr>"
  have a: "latched (state rt)
     (fold (reset_currency d) (resolve_reset_list d (currencies_reset layer) ''currency'') (state rt))"
    by (rule only_currencies_latched[OF fold_reset_currency])
  have b: "latched (state rt) s3"
    unfolding s3
    by (rule latched_trans[OF latched_trans[OF a fold_reset_element]
          only_currencies_latched[OF grant_reward_only_currencies]])
  have c: "latched s3 s5"
    by (rule latched_trans[OF latched_prestige only_flags_latched[OF update_element_statuses_flags[OF s5]]])
  show ?thesis using latched_trans[OF b c] rt' by simp
qed

lemma trigger_prestige_preserves:
  assumes t: "trigger_prestige d rt l = Some (res, rt')" and up: "upward P" and p: "P (state rt)"
  shows "P (state rt')"
  using t
proof (cases rule: trigger_prestige_cases)
  case failed
  then show ?thesis using p by simp
next
  case (applied layer formula)
  then show ?thesis using up p by (blast intro: upwardD apply_prestige_latched)
qed

section \<open>The sticky unlock flag\<close>

lemma upward_unlocked: "upward (\<lambda>s. is_unlocked s i)"
  by (simp add: upward_def latched_def)

lemma unlock_effect_sets:
  "etype eff = UNLOCK \<Longrightarrow> elements s (target eff) \<noteq> None \<Longrightarrow>
     is_unlocked (apply_immediate_effect eff s) (target eff) \<and>
     is_available (apply_immediate_effect eff s) (target eff)"
  by (auto simp: apply_immediate_effect_def is_unlocked_def is_available_def)

lemma update_unlocked_ignores_requirements:
  "is_unlocked s (e_id edef) \<Longrightarrow>
     update_element_status d (edef\<lparr>requirements := rs\<rparr>) s = update_element_status d edef s"
proof (cases "elements s (e_id edef)")
  case None
  then show ?thesis by (simp add: update_element_status_def)
next
  case (Some es)
  assume "is_unlocked s (e_id edef)"
  then have "unlocked es" using Some by (simp add: is_unlocked_def)
  then show ?thesis using Some
    by (simp add: update_element_status_def current_cost_def Let_def cong: option.case_cong if_cong)
qed

lemma update_element_status_available:
  assumes "update_element_status d edef s = Some s'" and "is_unlocked s i"
    and "e_id edef = i \<or> is_available s i"
  shows "is_available s' i"
  using assms unfolding update_element_status_def is_unlocked_def is_available_def
  by (auto simp: Let_def split: option.splits if_splits)

lemma update_element_statuses_available:
  assumes "update_element_statuses d s = Some s'" and "is_unlocked s i"
    and "i \<in> e_id ` set (d_elements d)"
  shows "is_available s' i \<and> is_unlocked s' i"
proof -
  have "mfold (update_element_status d) xs s = Some s' \<Longrightarrow> is_unlocked s i \<Longrightarrow>
        i \<in> e_id ` set xs \<or> is_available s i \<Longrightarrow> is_available s' i \<and> is_unlocked s' i" for xs
  proof (induction xs arbitrary: s)
    case Nil
    then show ?case by simp
  next
    case (Cons x xs)
    from Cons.prems(1) obtain s1 where 1: "update_element_status d x s = Some s1"
      and 2: "mfold (update_element_status d) xs s1 = Some s'"
      by (auto split: option.splits)
    have u: "is_unlocked s1 i"
      using only_flags_unlocked[OF update_element_status_flags[OF 1]] Cons.prems(2) by simp
    show ?case
    proof (cases "e_id x = i \<or> is_available s i")
      case True
      then have "is_available s1 i" using update_element_status_available[OF 1 Cons.prems(2)] by simp
      then show ?thesis using Cons.IH[OF 2 u] by simp
    next
      case False
      then have "i \<in> e_id ` set xs" using Cons.prems(3) by auto
      then show ?thesis using Cons.IH[OF 2 u] by simp
    qed
  qed
  then show ?thesis using assms by (simp add: update_element_statuses_def)
qed

text \<open>
  Claim C10. The unlocked flag is a one-way latch. An UNLOCK effect applied to an element
  of the state sets its unlocked and available flags. Once the flag of an element is set,
  it is still set after every \<^verbatim>\<open>tick\<close>, \<^verbatim>\<open>try_purchase\<close>, \<^verbatim>\<open>process_click\<close> and
  \<^verbatim>\<open>trigger_prestige\<close> that returns, also a prestige whose reset list names the element
  (given that the game's callbacks and the runtime's subsystems, which are the caller's
  code, leave a set flag set). The status update of an unlocked element does not depend
  on its requirements, and after an update of all statuses an unlocked element of the
  definition is available.
\<close>

theorem sticky_unlock_latch:
  assumes "callbacks_preserve d (\<lambda>s. is_unlocked s i)"
    and "subsystems_preserve rt (\<lambda>s. is_unlocked s i)"
    and "is_unlocked (state rt) i"
  shows "(\<forall>delta rt'. tick d rt delta = Some rt' \<longrightarrow> is_unlocked (state rt') i) \<and>
         (\<forall>e ok rt'. try_purchase d rt e = Some (ok, rt') \<longrightarrow> is_unlocked (state rt') i) \<and>
         (\<forall>c v rt'. process_click d rt c = Some (v, rt') \<longrightarrow> is_unlocked (state rt') i) \<and>
         (\<forall>l res rt'. trigger_prestige d rt l = Some (res, rt') \<longrightarrow> is_unlocked (state rt') i) \<and>
         (\<forall>edef rs. e_id edef = i \<longrightarrow>
            update_element_status d (edef\<lparr>requirements := rs\<rparr>) (state rt)
              = update_element_status d edef (state rt)) \<and>
         (\<forall>s'. i \<in> e_id ` set (d_elements d) \<longrightarrow> update_element_statuses d (state rt) = Some s' \<longrightarrow>
            is_available s' i \<and> is_unlocked s' i) \<and>
         (\<forall>eff s. etype eff = UNLOCK \<longrightarrow> elements s (target eff) \<noteq> None \<longrightarrow>
            is_unlocked (apply_immediate_effect eff s) (target eff) \<and>
            is_available (apply_immediate_effect eff s) (target eff))"
proof (intro conjI allI impI)
  fix delta rt' assume "tick d rt delta = Some rt'"
  then show "is_unlocked (state rt') i"
    using upward_unlocked assms by (rule tick_preserves)
next
  fix e ok rt' assume "try_purchase d rt e = Some (ok, rt')"
  then show "is_unlocked (state rt') i"
    using upward_unlocked assms(1,3) by (rule try_purchase_preserves)
next
  fix c v rt' assume "process_click d rt c = Some (v, rt')"
  then show "is_unlocked (state rt') i"
    using upward_unlocked assms(3) by (rule process_click_preserves)
next
  fix l res rt' assume "trigger_prestige d rt l = Some (res, rt')"
  then show "is_unlocked (state rt') i"
    using upward_unlocked assms(3) by (rule trigger_prestige_preserves)
next
  fix edef :: element_def and rs assume "e_id edef = i"
  then show "update_element_status d (edef\<lparr>requirements := rs\<rparr>) (state rt)
              = update_element_status d edef (state rt)"
    using assms(3) by (simp add: update_unlocked_ignores_requirements)
next
  fix s' assume "i \<in> e_id ` set (d_elements d)" "update_element_statuses d (state rt) = Some s'"
  then show "is_available s' i" "is_unlocked s' i"
    using update_element_statuses_available assms(3) by blast+
next
  fix eff :: effect_def and s :: game_state assume "etype eff = UNLOCK" "elements s (target eff) \<noteq> None"
  then show "is_unlocked (apply_immediate_effect eff s) (target eff)"
    "is_available (apply_immediate_effect eff s) (target eff)"
    using unlock_effect_sets by blast+
qed

lemma vault_rt1_obs:
  "is_unlocked (state vault_rt1) ''vault'' \<and> subsystems vault_rt1 = [] \<and>
   element_count (state vault_rt1) ''key'' = 1"
  by (simp add: model_defs vault_game_def vault_rt1_def is_unlocked_def)

lemma vault_prestige: "map_option (success \<circ> fst) (trigger_prestige vault_game vault_rt1 ''ascend'') = Some True"
  by (simp add: model_defs vault_game_def vault_rt1_def)

lemma vault_rt2_obs:
  "is_available (state vault_rt2) ''vault'' \<and> element_count (state vault_rt2) ''key'' = 0"
  by (simp add: model_defs vault_game_def vault_rt1_def vault_rt2_def is_available_def)

theorem sticky_unlock_latch_witness:
  "is_unlocked (state vault_rt1) ''vault'' \<and>
   map_option (success \<circ> fst) (trigger_prestige vault_game vault_rt1 ''ascend'') = Some True \<and>
   is_unlocked (state vault_rt2) ''vault'' \<and>
   is_available (state vault_rt2) ''vault'' \<and>
   element_count (state vault_rt2) ''key'' = 0"
proof -
  have cb: "callbacks_preserve vault_game (\<lambda>s. is_unlocked s ''vault'')"
    by (simp add: callbacks_preserve_def vault_game_def)
  have sub: "subsystems_preserve vault_rt1 (\<lambda>s. is_unlocked s ''vault'')"
    using vault_rt1_obs by (simp add: subsystems_preserve_def)
  have u: "is_unlocked (state vault_rt1) ''vault''" using vault_rt1_obs by simp
  obtain res where "trigger_prestige vault_game vault_rt1 ''ascend'' = Some (res, vault_rt2)"
    using vault_prestige by (auto simp: vault_rt2_def)
  then have "is_unlocked (state vault_rt2) ''vault''"
    using sticky_unlock_latch[OF cb sub u] by blast
  then show ?thesis using u vault_prestige vault_rt2_obs by simp
qed

section \<open>Milestones\<close>

lemma upward_milestone: "upward (\<lambda>s. map_of (milestones_reached s) m = Some t)"
  by (simp add: upward_def latched_def)

lemma check_milestone_reached:
  "map_of (milestones_reached s) (m_id mdef) = Some t \<Longrightarrow> check_milestone mdef s = Some s"
  by (auto simp: check_milestone_def dest: map_of_SomeD intro: rev_image_eqI)

lemma dict_set_absent: "k \<notin> fst ` set kvs \<Longrightarrow> dict_set kvs k v = kvs @ [(k, v)]"
  by (induction kvs) auto

lemma check_milestone_fires:
  assumes "m_id mdef \<notin> fst ` set (milestones_reached s)" and "trigger mdef = Some tr"
    and "evaluate tr s = Some True"
  shows "check_milestone mdef s =
     Some (run_callback (on_trigger mdef)
       (s\<lparr>milestones_reached := milestones_reached s @ [(m_id mdef, time_elapsed s)]\<rparr>))"
  using assms by (simp add: check_milestone_def dict_set_absent Let_def)

lemma record_milestone_ok: "log_ok sm \<Longrightarrow> log_ok (record_milestone mt sm)"
  by (cases mt) (auto simp: log_ok_def record_milestone_def)

lemma record_new_milestones_ok: "log_ok sm \<Longrightarrow> log_ok (record_new_milestones sm)"
proof -
  have "log_ok sm \<Longrightarrow> log_ok (fold record_milestone xs sm)" for xs
    by (induction xs arbitrary: sm) (auto simp: record_milestone_ok)
  then show "log_ok sm \<Longrightarrow> log_ok (record_new_milestones sm)"
    by (simp add: record_new_milestones_def)
qed

lemma buy_one_ok: "buy_one d e sm = Some sm' \<Longrightarrow> log_ok sm \<Longrightarrow> log_ok sm'"
  unfolding buy_one_def
  by (auto simp: bind_eq_Some_conv log_ok_def split: if_splits prod.splits)

lemma prestige_one_ok: "prestige_one d strategy layer sm = Some sm' \<Longrightarrow> log_ok sm \<Longrightarrow> log_ok sm'"
  unfolding prestige_one_def
  by (auto simp: log_ok_def split: if_splits option.splits prod.splits)

lemma run_tick_body_ok:
  assumes "run_tick_body d strategy res sm = Some sm'" and "log_ok sm"
  shows "log_ok sm'"
proof -
  from assms(1) obtain to_buy memory rt3 sm3 sm4 where
    3: "mfold (buy_one d) to_buy (sm\<lparr>sim_runtime := rt3, strat_memory := memory\<rparr>) = Some sm3"
    and 4: "mfold (prestige_one d strategy) (prestige_layers d) sm3 = Some sm4"
    and 5: "sm' = record_new_milestones sm4"
    unfolding run_tick_body_def by (auto simp: bind_eq_Some_conv split: prod.splits)
  have "log_ok (sm\<lparr>sim_runtime := rt3, strat_memory := memory\<rparr>)"
    using assms(2) by (simp add: log_ok_def)
  with 3 have "log_ok sm3" by (rule mfold_invariant) (rule buy_one_ok)
  with 4 have "log_ok sm4" by (rule mfold_invariant) (rule prestige_one_ok)
  then show ?thesis using 5 by (simp add: record_new_milestones_ok)
qed

lemma run_tick_loop_ok:
  "run_tick_loop d strategy is_met res n sm = Some sm' \<Longrightarrow> log_ok sm \<Longrightarrow> log_ok sm'"
proof (induction n arbitrary: sm)
  case 0
  then show ?case by simp
next
  case (Suc n)
  show ?case
  proof (cases "is_met (state (sim_runtime sm)) (ctx sm)")
    case True
    then show ?thesis using Suc.prems by simp
  next
    case False
    then obtain sm1 where 1: "run_tick_body d strategy res sm = Some sm1"
      and 2: "run_tick_loop d strategy is_met res n sm1 = Some sm'"
      using Suc.prems(1) by (auto split: option.splits)
    show ?thesis using Suc.IH[OF 2] run_tick_body_ok[OF 1 Suc.prems(2)] by simp
  qed
qed

lemma run_tick_ok:
  "Simulation d memory = Some sm0 \<Longrightarrow> run_tick d strategy is_met res sm0 = Some sm \<Longrightarrow>
     distinct (map milestone_id (milestones sm))"
proof -
  assume s0: "Simulation d memory = Some sm0"
    and run: "run_tick d strategy is_met res sm0 = Some sm"
  have "milestones sm0 = []" using s0 by (auto simp: Simulation_def split: option.splits)
  then have "log_ok (sm0\<lparr>milestones_seen := {}\<rparr>)" by (simp add: log_ok_def)
  then have "log_ok sm"
    using run run_tick_loop_ok[of d strategy is_met res MAX_TICKS "sm0\<lparr>milestones_seen := {}\<rparr>" sm]
    by (simp add: run_tick_def)
  then show ?thesis by (simp add: log_ok_def)
qed

text \<open>
  Claim C6. A milestone fires at most once in a run. Firing records the milestone's id
  with the elapsed time of that moment. Once the id is recorded with a time,
  \<^verbatim>\<open>_check_milestones\<close> passes over every milestone of that id without evaluating its
  trigger and without changing the state; the recorded time is the same after every
  \<^verbatim>\<open>tick\<close>, \<^verbatim>\<open>try_purchase\<close>, \<^verbatim>\<open>process_click\<close> and \<^verbatim>\<open>trigger_prestige\<close> that returns
  (given that the game's callbacks and the runtime's subsystems, which are the caller's
  code, leave the record as it is); and the milestone log of a tick-mode run, under any
  strategy and terminal condition, names no milestone twice.
\<close>

theorem milestone_fires_once:
  assumes "callbacks_preserve d (\<lambda>s. map_of (milestones_reached s) m = Some t)"
    and "subsystems_preserve rt (\<lambda>s. map_of (milestones_reached s) m = Some t)"
    and "map_of (milestones_reached (state rt)) m = Some t"
  shows "(\<forall>mdef. m_id mdef = m \<longrightarrow> check_milestone mdef (state rt) = Some (state rt)) \<and>
         (\<forall>delta rt'. tick d rt delta = Some rt' \<longrightarrow>
            map_of (milestones_reached (state rt')) m = Some t) \<and>
         (\<forall>e ok rt'. try_purchase d rt e = Some (ok, rt') \<longrightarrow>
            map_of (milestones_reached (state rt')) m = Some t) \<and>
         (\<forall>c v rt'. process_click d rt c = Some (v, rt') \<longrightarrow>
            map_of (milestones_reached (state rt')) m = Some t) \<and>
         (\<forall>l res rt'. trigger_prestige d rt l = Some (res, rt') \<longrightarrow>
            map_of (milestones_reached (state rt')) m = Some t) \<and>
         (\<forall>mdef s tr. m_id mdef \<notin> fst ` set (milestones_reached s) \<longrightarrow> trigger mdef = Some tr \<longrightarrow>
            evaluate tr s = Some True \<longrightarrow>
            check_milestone mdef s =
              Some (run_callback (on_trigger mdef)
                (s\<lparr>milestones_reached := milestones_reached s @ [(m_id mdef, time_elapsed s)]\<rparr>))) \<and>
         (\<forall>strategy is_met res (memory :: 'st) sm0 sm.
            Simulation d memory = Some sm0 \<longrightarrow> run_tick d strategy is_met res sm0 = Some sm \<longrightarrow>
            distinct (map milestone_id (milestones sm)))"
proof (intro conjI allI impI)
  fix mdef :: milestone_def assume "m_id mdef = m"
  then show "check_milestone mdef (state rt) = Some (state rt)"
    using assms(3) check_milestone_reached by blast
next
  fix delta rt' assume "tick d rt delta = Some rt'"
  then show "map_of (milestones_reached (state rt')) m = Some t"
    using upward_milestone assms by (rule tick_preserves)
next
  fix e ok rt' assume "try_purchase d rt e = Some (ok, rt')"
  then show "map_of (milestones_reached (state rt')) m = Some t"
    using upward_milestone assms(1,3) by (rule try_purchase_preserves)
next
  fix c v rt' assume "process_click d rt c = Some (v, rt')"
  then show "map_of (milestones_reached (state rt')) m = Some t"
    using upward_milestone assms(3) by (rule process_click_preserves)
next
  fix l res rt' assume "trigger_prestige d rt l = Some (res, rt')"
  then show "map_of (milestones_reached (state rt')) m = Some t"
    using upward_milestone assms(3) by (rule trigger_prestige_preserves)
next
  fix mdef :: milestone_def and s :: game_state and tr
  assume "m_id mdef \<notin> fst ` set (milestones_reached s)" "trigger mdef = Some tr"
    "evaluate tr s = Some True"
  then show "check_milestone mdef s =
              Some (run_callback (on_trigger mdef)
                (s\<lparr>milestones_reached := milestones_reached s @ [(m_id mdef, time_elapsed s)]\<rparr>))"
    by (rule check_milestone_fires)
next
  fix strategy :: "'st strategy" and is_met res and memory :: 'st and sm0 sm
  assume "Simulation d memory = Some sm0" "run_tick d strategy is_met res sm0 = Some sm"
  then show "distinct (map milestone_id (milestones sm))" by (rule run_tick_ok)
qed

lemma run_tick_loop_unfold:
  "0 < n \<Longrightarrow> run_tick_loop d strategy is_met res n sm =
     (if is_met (state (sim_runtime sm)) (ctx sm) then Some sm
      else (case run_tick_body d strategy res sm of
              None \<Rightarrow> None
            | Some sm' \<Rightarrow> run_tick_loop d strategy is_met res (n - 1) sm'))"
  by (cases n) (auto split: option.splits)

lemmas sim_defs =
  Simulation_def click_many_def buy_one_def prestige_one_def record_milestone_def
  record_new_milestones_def run_tick_body_def run_tick_def MAX_TICKS_def run_tick_loop_unfold

lemma rich_rt1_obs:
  "milestones_reached (state rich_rt1) = [(''rich'', 1)] \<and> subsystems rich_rt1 = []"
  by (simp add: model_defs rich_game_def rich_rt1_def)

lemma rich_tick2:
  "map_option (\<lambda>rt. time_elapsed (state rt)) (tick rich_game rich_rt1 1) = Some 2"
  by (simp add: model_defs rich_game_def rich_rt1_def)

lemma rich_run:
  "map_option (\<lambda>sm. (map milestone_id (milestones sm), time_elapsed (state (sim_runtime sm))))
     (run_tick rich_game idle_strategy after_three 1 (the (Simulation rich_game ())))
   = Some ([''rich''], 3)"
  by (simp add: model_defs sim_defs rich_game_def idle_strategy_def after_three_def)


theorem milestone_fires_once_witness:
  "map_of (milestones_reached (state rich_rt1)) ''rich'' = Some 1 \<and>
   map_option (\<lambda>rt. time_elapsed (state rt)) (tick rich_game rich_rt1 1) = Some 2 \<and>
   map_of (milestones_reached (state (the (tick rich_game rich_rt1 1)))) ''rich'' = Some 1 \<and>
   map_option (\<lambda>sm. (map milestone_id (milestones sm), time_elapsed (state (sim_runtime sm))))
     (run_tick rich_game idle_strategy after_three 1 (the (Simulation rich_game ())))
     = Some ([''rich''], 3) \<and>
   distinct (map milestone_id (milestones
     (the (run_tick rich_game idle_strategy after_three 1 (the (Simulation rich_game ()))))))"
proof -
  let ?P = "\<lambda>s. map_of (milestones_reached s) ''rich'' = Some (1::real)"
  have cb: "callbacks_preserve rich_game ?P"
    by (simp add: callbacks_preserve_def rich_game_def)
  have sub: "subsystems_preserve rich_rt1 ?P"
    using rich_rt1_obs by (simp add: subsystems_preserve_def)
  have r: "?P (state rich_rt1)" using rich_rt1_obs by simp
  note inst = milestone_fires_once[OF cb sub r]
  obtain rt' where t: "tick rich_game rich_rt1 1 = Some rt'" using rich_tick2 by auto
  have "?P (state rt')"
    using inst[THEN conjunct2, THEN conjunct1, rule_format, OF t] .
  then have 1: "?P (state (the (tick rich_game rich_rt1 1)))" using t by simp
  obtain sm0 where s0: "Simulation rich_game () = Some sm0"
    by (simp add: Simulation_def GameRuntime_def validate_def validate_errors_def rich_game_def
          update_element_statuses_def)
  obtain sm where run: "run_tick rich_game idle_strategy after_three 1 sm0 = Some sm"
    using rich_run s0 by auto
  have "distinct (map milestone_id (milestones sm))"
    using inst[THEN conjunct2, THEN conjunct2, THEN conjunct2, THEN conjunct2, THEN conjunct2,
      THEN conjunct2, rule_format, OF s0 run] .
  then show ?thesis using r rich_tick2 1 rich_run s0 run by simp
qed

section \<open>Prestige\<close>

lemma trigger_prestige_below_minimum:
  assumes "get_prestige_layer d l = Some layer"
    and "evaluate_all (p_requirements layer) (state rt) = Some True"
    and "reward_formula layer = Some formula"
    and "formula (state rt) < minimum_reward layer"
  shows "trigger_prestige d rt l =
     Some (failed_result (formula (state rt))
             (RewardBelowMinimum (formula (state rt)) (minimum_reward layer)), rt)"
  using assms by (simp add: trigger_prestige_def Let_def)

lemma trigger_prestige_requirements_unmet:
  assumes "get_prestige_layer d l = Some layer"
    and "evaluate_all (p_requirements layer) (state rt) = Some False"
  shows "trigger_prestige d rt l = Some (failed_result 0 RequirementsNotMet, rt)"
  using assms by (simp add: trigger_prestige_def)

lemma half_layer_found: "get_prestige_layer (half_reward_game need) ''ascend'' = Some (half_layer need)"
  by (simp add: get_prestige_layer_def half_reward_game_def half_layer_def)

lemma gated_rt_gold: "currency_value (state gated_rt) ''gold'' = 100"
  by (simp add: model_defs half_reward_game_def half_layer_def gated_rt_def)

lemma open_rt_gold: "currency_value (state open_rt) ''gold'' = 100"
  by (simp add: model_defs half_reward_game_def half_layer_def open_rt_def)

text \<open>
  Claim C7, as stated, fails where the gating requirements of the layer do not hold: the
  call returns before the formula is evaluated, and the result carries the reward 0. Here
  the formula gives one half, below the minimum 1, and the reported reward is 0.
\<close>

theorem prestige_reward_counterexample:
  "get_prestige_layer (half_reward_game 100000) ''ascend'' = Some (half_layer 100000) \<and>
   the (reward_formula (half_layer 100000)) (state gated_rt) = 1 / 2 \<and>
   minimum_reward (half_layer 100000) = 1 \<and>
   trigger_prestige (half_reward_game 100000) gated_rt ''ascend''
     = Some (failed_result 0 RequirementsNotMet, gated_rt) \<and>
   reward_amount (failed_result 0 RequirementsNotMet) = 0"
proof -
  have "evaluate_all (p_requirements (half_layer 100000)) (state gated_rt) = Some False"
    using gated_rt_gold by (simp add: half_layer_def compare_def)
  then have "trigger_prestige (half_reward_game 100000) gated_rt ''ascend''
     = Some (failed_result 0 RequirementsNotMet, gated_rt)"
    using half_layer_found by (rule trigger_prestige_requirements_unmet[rotated])
  then show ?thesis
    using half_layer_found by (simp add: half_layer_def failed_result_def)
qed

text \<open>
  Claim C7, amended. For a layer of the definition whose gating requirements hold and
  whose reward formula evaluates below the layer's minimum reward, \<^verbatim>\<open>trigger_prestige\<close>
  returns a failure that carries the computed reward and a reason made from the reward
  and the minimum, and the runtime it leaves is the runtime it found. Whatever the
  requirements say, a call on such a layer that returns fails, gives a reason and
  changes nothing.
\<close>

theorem prestige_below_minimum_rejected:
  assumes "get_prestige_layer d l = Some layer"
    and "reward_formula layer = Some formula"
    and "formula (state rt) < minimum_reward layer"
    and "trigger_prestige d rt l = Some (res, rt')"
  shows "\<not> success res \<and> rt' = rt \<and> reason res \<noteq> NoReason \<and>
         (evaluate_all (p_requirements layer) (state rt) = Some True \<longrightarrow>
            reward_amount res = formula (state rt) \<and>
            reason res = RewardBelowMinimum (formula (state rt)) (minimum_reward layer))"
proof (cases "evaluate_all (p_requirements layer) (state rt)")
  case None
  then show ?thesis using assms by (simp add: trigger_prestige_def)
next
  case (Some met)
  show ?thesis
  proof (cases met)
    case True
    then show ?thesis
      using trigger_prestige_below_minimum[OF assms(1) _ assms(2,3)] Some assms(4)
      by (auto simp: failed_result_def)
  next
    case False
    then show ?thesis
      using trigger_prestige_requirements_unmet[OF assms(1)] Some assms(4)
      by (auto simp: failed_result_def)
  qed
qed

theorem prestige_below_minimum_rejected_witness:
  "trigger_prestige (half_reward_game 100) open_rt ''ascend''
     = Some (failed_result (1 / 2) (RewardBelowMinimum (1 / 2) 1), open_rt)"
proof -
  have layer: "get_prestige_layer (half_reward_game 100) ''ascend'' = Some (half_layer 100)"
    by (rule half_layer_found)
  have f: "reward_formula (half_layer 100) = Some (\<lambda>s. 1 / 2)"
    and m: "minimum_reward (half_layer 100) = 1"
    by (simp_all add: half_layer_def)
  have met: "evaluate_all (p_requirements (half_layer 100)) (state open_rt) = Some True"
    using open_rt_gold by (simp add: half_layer_def compare_def)
  obtain res rt' where t: "trigger_prestige (half_reward_game 100) open_rt ''ascend'' = Some (res, rt')"
    using trigger_prestige_below_minimum[OF layer met f] m by simp
  have "\<not> success res \<and> rt' = open_rt \<and> reason res \<noteq> NoReason \<and>
        (evaluate_all (p_requirements (half_layer 100)) (state open_rt) = Some True \<longrightarrow>
           reward_amount res = 1 / 2 \<and>
           reason res = RewardBelowMinimum (1 / 2) (minimum_reward (half_layer 100)))"
    using prestige_below_minimum_rejected[OF layer f _ t] m by simp
  then show ?thesis
    using t met m trigger_prestige_below_minimum[OF layer met f] by (simp add: failed_result_def)
qed

section \<open>The claims that fail on the code\<close>

lemmas roi_defs =
  total_rate_def refund_def restore_rate_def undo_purchase_def speculate_def
  GreedyROI_decide_purchases_def

text \<open>
  Claim C3 at an input where it fails. The layer's explicit reset lists name the
  persistent currency relics and the element statue, tagged persistent. After one click
  the balance of relics is 1; the successful prestige sets it to its initial value 0,
  while the statue, like every element tagged persistent, keeps its count.
\<close>

theorem prestige_resets_named_persistent_currency:
  "get_currency relic_game ''relics'' = Some relics_def \<and> persistent relics_def \<and>
   get_element relic_game ''statue'' = Some statue_def \<and> ''persistent'' \<in> tags statue_def \<and>
   currency_value (state relic_rt3) ''relics'' = 1 \<and>
   element_count (state relic_rt3) ''statue'' = 1 \<and>
   element_count (state relic_rt3) ''miner'' = 1 \<and>
   map_option (success \<circ> fst) (trigger_prestige relic_game relic_rt3 ''ascend'') = Some True \<and>
   currency_value (state relic_rt4) ''relics'' = 0 \<and>
   element_count (state relic_rt4) ''statue'' = 1 \<and>
   element_count (state relic_rt4) ''miner'' = 0"
  by (simp add: model_defs relic_game_def relics_def_def statue_def_def relic_rt3_def relic_rt4_def)

text \<open>
  Claim C4 at an input where it fails. GreedyROI scores the one affordable purchase, a
  chest, by buying it and undoing the purchase. The undo restores the gold, the count
  and the rates; the 5 gems the chest granted stay, in the balance and in the total
  earned, and the chest's affordable flag, set before, is left cleared.
\<close>

theorem greedy_roi_undo_leaves_traces:
  "map_option (map es_id) (get_affordable_purchases chest_game (state chest_rt0)) = Some [''chest''] \<and>
   map_option fst (GreedyROI_decide_purchases chest_game True chest_rt0
       (the (get_affordable_purchases chest_game (state chest_rt0)))) = Some [''chest''] \<and>
   currency_value (state chest_rt0) ''gold'' = 100 \<and> currency_value (state chest_rt1) ''gold'' = 100 \<and>
   element_count (state chest_rt0) ''chest'' = 0 \<and> element_count (state chest_rt1) ''chest'' = 0 \<and>
   currency_value (state chest_rt0) ''gems'' = 0 \<and> currency_value (state chest_rt1) ''gems'' = 5 \<and>
   total_earned_of (state chest_rt0) ''gems'' = 0 \<and> total_earned_of (state chest_rt1) ''gems'' = 5 \<and>
   map_option affordable (elements (state chest_rt0) ''chest'') = Some True \<and>
   map_option affordable (elements (state chest_rt1) ''chest'') = Some False \<and>
   state chest_rt1 \<noteq> state chest_rt0"
proof -
  have a: "map_option (map es_id) (get_affordable_purchases chest_game (state chest_rt0)) = Some [''chest'']"
    by (simp add: model_defs chest_game_def chest_rt0_def)
  have b: "map_option fst (GreedyROI_decide_purchases chest_game True chest_rt0
       (the (get_affordable_purchases chest_game (state chest_rt0)))) = Some [''chest'']"
    by (simp add: model_defs roi_defs chest_game_def chest_rt0_def)
  have c: "currency_value (state chest_rt0) ''gold'' = 100 \<and> element_count (state chest_rt0) ''chest'' = 0 \<and>
    currency_value (state chest_rt0) ''gems'' = 0 \<and> total_earned_of (state chest_rt0) ''gems'' = 0 \<and>
    map_option affordable (elements (state chest_rt0) ''chest'') = Some True"
    by (simp add: model_defs chest_game_def chest_rt0_def)
  have d: "currency_value (state chest_rt1) ''gold'' = 100 \<and> element_count (state chest_rt1) ''chest'' = 0 \<and>
    currency_value (state chest_rt1) ''gems'' = 5 \<and> total_earned_of (state chest_rt1) ''gems'' = 5 \<and>
    map_option affordable (elements (state chest_rt1) ''chest'') = Some False"
    by (simp add: model_defs roi_defs chest_game_def chest_rt0_def chest_rt1_def)
  have "state chest_rt1 \<noteq> state chest_rt0" using c d by auto
  then show ?thesis using a b c d by simp
qed

text \<open>
  Claim C5 at an input where it fails. The click target of gold has the base value -1.
  A click adds the click value to the total earned as it is: the total earned of gold
  drops from 10 to 9. (Production and GRANT effects add to the total only what is
  positive.)
\<close>

theorem click_lowers_total_earned:
  "total_earned_of (state penalty_rt0) ''gold'' = 10 \<and>
   map_option fst (process_click penalty_game penalty_rt0 ''gold'') = Some (- 1) \<and>
   total_earned_of (state (snd (the (process_click penalty_game penalty_rt0 ''gold'')))) ''gold'' = 9"
  by (simp add: model_defs penalty_game_def penalty_rt0_def)

text \<open>
  Claim C8 at an input where it fails. An element with the empty cost is affordable now,
  and is listed so; \<^verbatim>\<open>compute_time_to_afford\<close> returns \<^verbatim>\<open>None\<close> for it, the value
  that stands for never, not 0.
\<close>

theorem free_element_time_is_None:
  "get_element gift_game ''gift'' \<noteq> None \<and>
   compute_current_cost gift_game (state gift_rt0) ''gift'' = Some [] \<and>
   map_option (map es_id) (get_affordable_purchases gift_game (state gift_rt0)) = Some [''gift''] \<and>
   compute_time_to_afford gift_game (state gift_rt0) ''gift'' = Some None"
  by (simp add: model_defs gift_game_def gift_rt0_def)

text \<open>
  Claim C9 at an input where it fails. \<^verbatim>\<open>validate\<close> warns about an effect whose attribute
  \<^verbatim>\<open>_created_by\<close> is \<^verbatim>\<open>"per_count"\<close>, and \<^verbatim>\<open>Effect.per_count\<close> never sets that attribute:
  for a definition whose element has PRODUCTION_MULT and GLOBAL_MULT effects built by
  \<^verbatim>\<open>per_count\<close>, validation returns no error and emits no warning.
\<close>

theorem per_count_mult_not_flagged:
  "etype (per_count ''booster'' PRODUCTION_MULT ''gold'' 2 None) = PRODUCTION_MULT \<and>
   created_by (per_count ''booster'' PRODUCTION_MULT ''gold'' 2 None) = None \<and>
   validate booster_game = ([], [])"
  by (simp add: model_defs booster_game_def)

section \<open>What holds of the operations behind the failing claims\<close>

text \<open>The time to afford an element whose cost is not empty.\<close>

lemma time_loop_None_iff:
  "time_loop s cost m = None \<longleftrightarrow>
     list_ex (\<lambda>(c, a). currency_value s c < a \<and> currency_rate s c \<le> 0) cost"
  by (induction s cost m rule: time_loop.induct) (auto simp: Let_def)

lemma time_loop_lower: "time_loop s cost m = Some t \<Longrightarrow> m \<le> t"
proof (induction cost arbitrary: m)
  case Nil
  then show ?case by simp
next
  case (Cons x rest)
  obtain cur_id amount where x: "x = (cur_id, amount)" by (cases x)
  show ?case
  proof (cases "currency_value s cur_id \<ge> amount")
    case True
    then show ?thesis using Cons x by (simp add: Let_def)
  next
    case False
    then have r: "\<not> currency_rate s cur_id \<le> 0" using Cons.prems x by (auto simp: Let_def)
    let ?t = "(amount - currency_value s cur_id) / currency_rate s cur_id"
    have "time_loop s rest (if ?t > m then ?t else m) = Some t"
      using Cons.prems x False r by (simp add: Let_def)
    then have "(if ?t > m then ?t else m) \<le> t" by (rule Cons.IH)
    then show ?thesis by (auto split: if_splits)
  qed
qed

lemma time_loop_paid: "can_pay s cost \<Longrightarrow> time_loop s cost m = Some m"
  by (induction s cost m rule: time_loop.induct) (auto simp: can_pay_def Let_def)

lemma compute_time_to_afford_priced:
  assumes "compute_current_cost d s e = Some cost" and "cost \<noteq> []"
  shows "compute_time_to_afford d s e = Some (time_loop s cost 0)"
    and "compute_time_to_afford d s e = Some None \<longleftrightarrow>
           list_ex (\<lambda>(c, a). currency_value s c < a \<and> currency_rate s c \<le> 0) cost"
    and "compute_time_to_afford d s e = Some (Some t) \<Longrightarrow> 0 \<le> t"
    and "can_pay s cost \<Longrightarrow> compute_time_to_afford d s e = Some (Some 0)"
  using assms time_loop_None_iff[of s cost 0] time_loop_lower[of s cost 0 t] time_loop_paid[of s cost 0]
  by (auto simp: compute_time_to_afford_def)

text \<open>A click adds the click value to the total earned, whatever its sign.\<close>

lemma process_click_total_earned:
  assumes "process_click d rt c = Some (v, rt')" and "get_click_target d c \<noteq> None"
  shows "total_earned_of (state rt') c = total_earned_of (state rt) c + v"
  using assms(1)
proof (cases rule: process_click_cases)
  case 1
  then show ?thesis using assms(2) by simp
next
  case (2 ct click_effects cs s2)
  let ?s1 = "(state rt)\<lparr>currencies := (currencies (state rt))(c \<mapsto>
            cs\<lparr>current := current cs + v, total_earned := total_earned cs + v\<rparr>)\<rparr>"
  have "total_earned_of s2 c = total_earned_of ?s1 c"
    using 2(5) by (auto simp: clamp_to_cap_def total_earned_of_def split: option.splits if_splits)
  then show ?thesis using 2(4,6) by (simp add: total_earned_of_def)
qed

text \<open>
  What a successful prestige does to a currency of the reset list, to a currency outside
  it, and to an element tagged persistent.
\<close>

lemma reset_currency_same:
  "currencies s cid \<noteq> None \<Longrightarrow>
     currencies (reset_currency d cid s) cid =
       Some \<lparr>current = reset_value d cid, total_earned = reset_value d cid, current_rate = 0\<rparr>"
  by (auto simp: reset_currency_def reset_value_def Let_def split: option.splits)

lemma reset_currency_other:
  "x \<noteq> cid \<Longrightarrow> currencies (reset_currency d x s) cid = currencies s cid"
  by (auto simp: reset_currency_def Let_def split: option.splits)

lemma fold_reset_currency_other:
  "cid \<notin> set cids \<Longrightarrow> currencies (fold (reset_currency d) cids s) cid = currencies s cid"
  by (induction cids arbitrary: s) (auto simp: reset_currency_other)

lemma fold_reset_currency_done:
  assumes "currencies s cid =
       Some \<lparr>current = reset_value d cid, total_earned = reset_value d cid, current_rate = 0\<rparr>"
  shows "currencies (fold (reset_currency d) cids s) cid =
       Some \<lparr>current = reset_value d cid, total_earned = reset_value d cid, current_rate = 0\<rparr>"
  using assms
proof (induction cids arbitrary: s)
  case Nil
  then show ?case by simp
next
  case (Cons x cids)
  have "currencies (reset_currency d x s) cid =
       Some \<lparr>current = reset_value d cid, total_earned = reset_value d cid, current_rate = 0\<rparr>"
  proof (cases "x = cid")
    case True
    then show ?thesis using Cons.prems reset_currency_same[of s cid d] by simp
  next
    case False
    then show ?thesis using Cons.prems by (simp add: reset_currency_other)
  qed
  then show ?case using Cons.IH by simp
qed

lemma fold_reset_currency_named:
  assumes "cid \<in> set cids" and "currencies s cid \<noteq> None"
  shows "currencies (fold (reset_currency d) cids s) cid =
       Some \<lparr>current = reset_value d cid, total_earned = reset_value d cid, current_rate = 0\<rparr>"
  using assms
proof (induction cids arbitrary: s)
  case Nil
  then show ?case by simp
next
  case (Cons x cids)
  show ?case
  proof (cases "x = cid")
    case True
    then show ?thesis
      using fold_reset_currency_done[OF reset_currency_same[OF Cons.prems(2), of d], of cids] by simp
  next
    case False
    then have "cid \<in> set cids" "currencies (reset_currency d x s) cid \<noteq> None"
      using Cons.prems by (auto simp: reset_currency_other)
    then show ?thesis using Cons.IH by simp
  qed
qed

lemma fold_reset_element_currencies:
  "currencies (fold (reset_element d) eids s) = currencies s"
  by (induction eids arbitrary: s) (auto simp: reset_element_def split: option.splits)

lemma grant_reward_other:
  "pc \<noteq> cid \<Longrightarrow> currencies (grant_reward pc r s) cid = currencies s cid"
  by (auto simp: grant_reward_def split: option.splits)

lemma apply_prestige_currencies:
  assumes "apply_prestige d rt l layer reward = Some (res, rt')" and "cid \<noteq> prestige_currency layer"
  shows "currencies (state rt') cid =
     currencies (fold (reset_currency d) (resolve_reset_list d (currencies_reset layer) ''currency'')
        (state rt)) cid"
  using assms(1)
proof (rule apply_prestige_result)
  fix s3 s5
  assume s3: "s3 = grant_reward (prestige_currency layer) reward
          (fold (reset_element d) (resolve_reset_list d (elements_reset layer) ''element'')
            (fold (reset_currency d) (resolve_reset_list d (currencies_reset layer) ''currency'')
               (state rt)))"
    and s5: "update_element_statuses d
       (s3\<lparr>prestige_counts :=
             (prestige_counts s3)(l \<mapsto> (case prestige_counts s3 l of None \<Rightarrow> 0 | Some n \<Rightarrow> n) + 1),
           run_number := run_number s3 + 1\<rparr>) = Some s5"
    and rt': "rt' = rt\<lparr>state := s5, dirty := True\<rparr>"
  have "currencies s5 = currencies s3"
    using only_flags_fields[OF update_element_statuses_flags[OF s5]] by simp
  then show ?thesis
    using assms(2) rt' unfolding s3
    by (simp add: grant_reward_other fold_reset_element_currencies)
qed

lemma apply_prestige_resets_named:
  assumes "apply_prestige d rt l layer reward = Some (res, rt')"
    and "cid \<in> set (resolve_reset_list d (currencies_reset layer) ''currency'')"
    and "cid \<noteq> prestige_currency layer" and "currencies (state rt) cid \<noteq> None"
  shows "currency_value (state rt') cid = reset_value d cid"
    and "total_earned_of (state rt') cid = reset_value d cid"
    and "currency_rate (state rt') cid = 0"
  using apply_prestige_currencies[OF assms(1,3)] fold_reset_currency_named[OF assms(2,4), of d]
  by (simp_all add: currency_value_def total_earned_of_def currency_rate_def)

lemma apply_prestige_keeps_unnamed:
  assumes "apply_prestige d rt l layer reward = Some (res, rt')"
    and "cid \<notin> set (resolve_reset_list d (currencies_reset layer) ''currency'')"
    and "cid \<noteq> prestige_currency layer"
  shows "currencies (state rt') cid = currencies (state rt) cid"
  using apply_prestige_currencies[OF assms(1,3)] fold_reset_currency_other[OF assms(2), of d]
  by simp

lemma sentinel_lists_no_persistent_currency:
  "cid \<in> set (resolve_reset_list d (ResetStr ''all_non_persistent'') ''currency'') \<Longrightarrow>
     \<exists>c \<in> set (d_currencies d). c_id c = cid \<and> \<not> persistent c"
  by (auto simp: resolve_reset_list_def)

lemma reset_element_persistent:
  "get_element d eid = Some edef \<Longrightarrow> ''persistent'' \<in> tags edef \<Longrightarrow>
     elements (reset_element d x s) eid = elements s eid"
  by (auto simp: reset_element_def split: option.splits)

lemma fold_reset_element_persistent:
  "get_element d eid = Some edef \<Longrightarrow> ''persistent'' \<in> tags edef \<Longrightarrow>
     elements (fold (reset_element d) eids s) eid = elements s eid"
  by (induction eids arbitrary: s) (auto simp: reset_element_persistent)

lemma apply_prestige_keeps_persistent_element:
  assumes "apply_prestige d rt l layer reward = Some (res, rt')"
    and "get_element d eid = Some edef" and "''persistent'' \<in> tags edef"
  shows "element_count (state rt') eid = element_count (state rt) eid"
  using assms(1)
proof (rule apply_prestige_result)
  fix s3 s5
  assume s3: "s3 = grant_reward (prestige_currency layer) reward
          (fold (reset_element d) (resolve_reset_list d (elements_reset layer) ''element'')
            (fold (reset_currency d) (resolve_reset_list d (currencies_reset layer) ''currency'')
               (state rt)))"
    and s5: "update_element_statuses d
       (s3\<lparr>prestige_counts :=
             (prestige_counts s3)(l \<mapsto> (case prestige_counts s3 l of None \<Rightarrow> 0 | Some n \<Rightarrow> n) + 1),
           run_number := run_number s3 + 1\<rparr>) = Some s5"
    and rt': "rt' = rt\<lparr>state := s5, dirty := True\<rparr>"
  have "element_count s5 eid = element_count s3 eid"
    using only_flags_count[OF update_element_statuses_flags[OF s5], of eid]
    by (simp add: element_count_def)
  moreover have "elements s3 eid = elements (state rt) eid"
    unfolding s3
    using only_currencies_fields[OF grant_reward_only_currencies]
      only_currencies_fields[OF fold_reset_currency]
    by (simp add: fold_reset_element_persistent[OF assms(2,3)])
  ultimately show ?thesis using rt' by (simp add: element_count_def)
qed

text \<open>
  The paths that guard the sign: a GRANT effect, a purchase without callback and the
  production step of a tick never lower a total earned.
\<close>

lemma apply_immediate_effect_total:
  "total_earned_of s c \<le> total_earned_of (apply_immediate_effect eff s) c"
  by (auto simp: apply_immediate_effect_def total_earned_of_def Let_def split: option.splits)

lemma apply_immediate_effects_total:
  "total_earned_of s c \<le> total_earned_of (apply_immediate_effects edef s) c"
proof -
  have "total_earned_of s c
        \<le> total_earned_of (fold (\<lambda>eff s. if phase eff = IMMEDIATE then apply_immediate_effect eff s else s)
              effs s) c" for effs
  proof (induction effs arbitrary: s)
    case Nil
    then show ?case by simp
  next
    case (Cons eff effs)
    show ?case
      using Cons.IH[of "if phase eff = IMMEDIATE then apply_immediate_effect eff s else s"]
        apply_immediate_effect_total[of s c eff]
      by (auto split: if_splits)
  qed
  then show ?thesis by (simp add: apply_immediate_effects_def)
qed

lemma try_purchase_total_earned:
  assumes "try_purchase d rt e = Some (ok, rt')"
    and "\<And>edef. get_element d e = Some edef \<Longrightarrow> on_purchase edef = None"
  shows "total_earned_of (state rt) c \<le> total_earned_of (state rt') c"
proof (cases ok)
  case False
  with assms(1) have "rt' = rt" by (simp add: try_purchase_failure)
  then show ?thesis by simp
next
  case True
  with assms(1) have "try_purchase d rt e = Some (True, rt')" by simp
  then obtain edef es cost s1 s5 where
    edef: "get_element d e = Some edef"
    and s1: "mfold deduct cost (state rt) = Some s1"
    and s5: "update_element_statuses d
       (run_callback (on_purchase edef)
          (apply_immediate_effects edef
             (s1\<lparr>elements := (elements s1)(e \<mapsto> es\<lparr>count := count es + 1\<rparr>)\<rparr>))) = Some s5"
    and rt': "rt' = rt\<lparr>state := s5, dirty := True\<rparr>"
    by (rule try_purchase_success)
  let ?s2 = "s1\<lparr>elements := (elements s1)(e \<mapsto> es\<lparr>count := count es + 1\<rparr>)\<rparr>"
  have "currencies s5 = currencies (apply_immediate_effects edef ?s2)"
    using only_flags_fields[OF update_element_statuses_flags[OF s5]] assms(2)[OF edef]
    by (simp add: run_callback_def)
  then have "total_earned_of s5 c = total_earned_of (apply_immediate_effects edef ?s2) c"
    by (simp add: total_earned_of_def)
  moreover have "total_earned_of ?s2 c \<le> total_earned_of (apply_immediate_effects edef ?s2) c"
    by (rule apply_immediate_effects_total)
  moreover have "total_earned_of ?s2 c = total_earned_of (state rt) c"
    using mfold_deduct_totals[OF s1, of c] by (simp add: total_earned_of_def)
  ultimately show ?thesis using rt' by simp
qed

lemma clamp_to_cap_total:
  "clamp_to_cap d i s = Some s' \<Longrightarrow> total_earned_of s' c = total_earned_of s c"
  by (auto simp: clamp_to_cap_def total_earned_of_def split: option.splits if_splits)

lemma production_step_total:
  assumes "production_step d delta cdef s = Some s'"
  shows "total_earned_of s c \<le> total_earned_of s' c"
proof (cases "currencies s (c_id cdef)")
  case None
  then show ?thesis using assms by (simp add: production_step_def)
next
  case (Some cs)
  show ?thesis
  proof (cases "current_rate cs = 0")
    case True
    then show ?thesis using assms Some by (simp add: production_step_def)
  next
    case False
    let ?earned = "current_rate cs * delta"
    let ?s1 = "s\<lparr>currencies := (currencies s)(c_id cdef \<mapsto>
        cs\<lparr>current := current cs + ?earned,
           total_earned := (if ?earned > 0 then total_earned cs + ?earned else total_earned cs)\<rparr>)\<rparr>"
    have "clamp_to_cap d (c_id cdef) ?s1 = Some s'"
      using assms Some False by (simp add: production_step_def Let_def)
    then have "total_earned_of s' c = total_earned_of ?s1 c" by (rule clamp_to_cap_total)
    moreover have "total_earned_of s c \<le> total_earned_of ?s1 c"
      using Some by (simp add: total_earned_of_def)
    ultimately show ?thesis by simp
  qed
qed

end
